theory Spec2Isabelle
  imports Complex_Main "HOL-Library.Word"
begin

section \<open>SecretManager: masking a secret for the logs\<close>

text \<open>
  JavaScript strings are sequences of UTF-16 code units and \<open>length\<close> counts them;
  a \<open>char\<close> of the model stands for one code unit. Numbers that the code uses as
  counts and positions are integers here.

  \<open>String.prototype.substring(start, end)\<close> clamps both positions to the range
  from 0 to the length of the string and swaps them when start is the larger one.
  \<open>String.prototype.repeat(count)\<close> is given the count as an integer; the only call
  of the source passes a positive count.
\<close>

definition clamp_index :: "string \<Rightarrow> int \<Rightarrow> nat" where
  "clamp_index s i = min (nat i) (length s)"

definition substring :: "string \<Rightarrow> int \<Rightarrow> int \<Rightarrow> string" where
  "substring s start end' =
     (let a = clamp_index s start; b = clamp_index s end'
      in take (max a b - min a b) (drop (min a b) s))"

definition repeat :: "string \<Rightarrow> int \<Rightarrow> string" where
  "repeat s count = concat (replicate (nat count) s)"

text \<open>
  \<^verbatim>\<open>
  static maskSecret(secret, visibleChars = 4) {
    if (!secret || secret.length <= visibleChars) { return '***'; }
    const visible = secret.substring(0, visibleChars);
    const masked = '*'.repeat(Math.min(secret.length - visibleChars, 8));
    return `${visible}${masked}`;
  }
  \<close>
  For a string, \<open>!secret\<close> holds exactly when it is empty.
\<close>

definition maskSecret :: "string \<Rightarrow> int \<Rightarrow> string" where
  "maskSecret secret visibleChars =
     (if secret = [] \<or> int (length secret) \<le> visibleChars then ''***''
      else
        let visible = substring secret 0 visibleChars;
            masked = repeat ''*'' (min (int (length secret) - visibleChars) 8)
        in visible @ masked)"

text \<open>The call with the default value of the second parameter.\<close>

definition maskSecret_default :: "string \<Rightarrow> string" where
  "maskSecret_default secret = maskSecret secret 4"

section \<open>JavaScript values\<close>

text \<open>
  JSON values, as request and response bodies carry them. A property that may be
  absent (JavaScript's \<open>undefined\<close>) is a \<open>json option\<close>. Numbers are restricted
  to integers. \<open>truthy\<close> is JavaScript's conversion to a boolean: \<open>null\<close>, \<open>false\<close>,
  \<open>0\<close> and the empty string are falsy, every array and object (the empty ones too)
  is truthy; \<open>undefined\<close> is falsy.
\<close>

datatype json =
    JNull
  | JBool bool
  | JNum int
  | JStr string
  | JArr "json list"
  | JObj "(string \<times> json) list"

fun truthy :: "json \<Rightarrow> bool" where
  "truthy JNull = False"
| "truthy (JBool b) = b"
| "truthy (JNum n) = (n \<noteq> 0)"
| "truthy (JStr s) = (s \<noteq> [])"
| "truthy (JArr xs) = True"
| "truthy (JObj kvs) = True"

definition falsy :: "json option \<Rightarrow> bool" where
  "falsy v = (case v of None \<Rightarrow> True | Some j \<Rightarrow> \<not> truthy j)"

text \<open>
  Property access \<open>o.k\<close> on a parsed JSON value: the last binding of a key wins, and
  a value that is not an object has none of the properties the code reads.
  \<open>js_object\<close> builds an object literal whose \<open>undefined\<close> properties are dropped
  when the object is serialised.
\<close>

fun field :: "json \<Rightarrow> string \<Rightarrow> json option" where
  "field (JObj kvs) k = map_of (rev kvs) k"
| "field j k = None"

definition js_object :: "(string \<times> json option) list \<Rightarrow> json" where
  "js_object kvs = JObj (concat (map (\<lambda>(k, v). case v of None \<Rightarrow> [] | Some j \<Rightarrow> [(k, j)]) kvs))"

text \<open>
  What the code throws. Every rejection of the backing store's client and of the
  HTTP helpers is an \<open>Error\<close> with a message, an error object of any class (a
  TypeError is one); \<open>Undefined\<close> is the value
  \<open>undefined\<close> thrown by \<open>throw lastError\<close> when nothing was assigned.
  \<open>message_or\<close> is \<open>error instanceof Error ? error.message : fallback\<close>.
\<close>

datatype thrown = Error string | Undefined

fun message_or :: "thrown \<Rightarrow> string \<Rightarrow> string" where
  "message_or (Error m) fallback = m"
| "message_or Undefined fallback = fallback"

text \<open>
  The fields of a secret document are strings, as in every document the gateway
  seeds. In a template literal an absent field prints as \<open>undefined\<close>; \<open>a || b\<close>
  takes \<open>b\<close> when \<open>a\<close> is absent or empty.
\<close>

type_synonym document = "string \<rightharpoonup> string"

definition js_str :: "string option \<Rightarrow> string" where
  "js_str v = (case v of None \<Rightarrow> ''undefined'' | Some s \<Rightarrow> s)"

definition or_default :: "string option \<Rightarrow> string \<Rightarrow> string" where
  "or_default v d = (case v of None \<Rightarrow> d | Some s \<Rightarrow> if s = [] then d else s)"

text \<open>Decimal notation of a natural number, as a template literal prints it.\<close>

fun show_nat :: "nat \<Rightarrow> string" where
  "show_nat n =
     (if n < 10 then [''0123456789'' ! n]
      else show_nat (n div 10) @ [''0123456789'' ! (n mod 10)])"

text \<open>
  The text that a template literal prints for a JSON value: a string as it is, an
  integer in decimal (as JavaScript prints those below \<open>10^21\<close>), an array as its
  elements separated by commas with \<open>null\<close> printed as nothing, every object as
  \<open>[object Object]\<close>, and an absent value as \<open>undefined\<close>.
\<close>

fun join :: "string \<Rightarrow> string list \<Rightarrow> string" where
  "join sep [] = []"
| "join sep [x] = x"
| "join sep (x # y # ys) = x @ sep @ join sep (y # ys)"

definition show_int :: "int \<Rightarrow> string" where
  "show_int n = (if n < 0 then ''-'' @ show_nat (nat (- n)) else show_nat (nat n))"

fun js_String :: "json \<Rightarrow> string" where
  "js_String JNull = ''null''"
| "js_String (JBool b) = (if b then ''true'' else ''false'')"
| "js_String (JNum n) = show_int n"
| "js_String (JStr s) = s"
| "js_String (JArr xs) =
     join '','' (map (\<lambda>x. if x = JNull then [] else js_String x) xs)"
| "js_String (JObj kvs) = ''[object Object]''"

definition template :: "json option \<Rightarrow> string" where
  "template v = (case v of None \<Rightarrow> ''undefined'' | Some j \<Rightarrow> js_String j)"

text \<open>
  \<open>parseInt(s)\<close> without a radix: leading white space is skipped, then an optional
  sign, then a hexadecimal number after \<open>0x\<close> or \<open>0X\<close> or else a decimal number;
  the longest prefix of digits counts, and no digit at all gives \<open>NaN\<close>
  (\<open>None\<close>). An absent field is parsed as the text \<open>undefined\<close>. A character
  is a code unit below 256, so of the white space that JavaScript skips the model
  has the six ASCII characters and the no-break space. The value is the exact
  integer, which is the double that JavaScript returns up to \<open>2^53\<close>.
\<close>

definition is_space :: "char \<Rightarrow> bool" where
  "is_space c = (c \<in> set [CHR '' '', CHR 0x09, CHR 0x0A, CHR 0x0B, CHR 0x0C, CHR 0x0D, CHR 0xA0])"

definition digit_value :: "char \<Rightarrow> nat option" where
  "digit_value c =
     (let n = of_char c :: nat in
      if 48 \<le> n \<and> n \<le> 57 then Some (n - 48)
      else if 97 \<le> n \<and> n \<le> 102 then Some (n - 87)
      else if 65 \<le> n \<and> n \<le> 70 then Some (n - 55)
      else None)"

definition is_digit_in :: "nat \<Rightarrow> char \<Rightarrow> bool" where
  "is_digit_in radix c = (case digit_value c of None \<Rightarrow> False | Some d \<Rightarrow> d < radix)"

definition digits_value :: "nat \<Rightarrow> string \<Rightarrow> nat" where
  "digits_value radix ds = foldl (\<lambda>acc c. acc * radix + (case digit_value c of None \<Rightarrow> 0 | Some d \<Rightarrow> d)) 0 ds"

definition parse_digits :: "nat \<Rightarrow> string \<Rightarrow> nat option" where
  "parse_digits radix s =
     (let ds = takeWhile (is_digit_in radix) s
      in if ds = [] then None else Some (digits_value radix ds))"

definition parseInt :: "string \<Rightarrow> int option" where
  "parseInt s =
     (let t = dropWhile is_space s;
          negative = (take 1 t = ''-'');
          u = (if take 1 t = ''-'' \<or> take 1 t = ''+'' then drop 1 t else t);
          magnitude = (if take 2 u = ''0x'' \<or> take 2 u = ''0X''
                       then parse_digits 16 (drop 2 u) else parse_digits 10 u)
      in case magnitude of
           None \<Rightarrow> None
         | Some n \<Rightarrow> Some (if negative then - int n else int n))"

section \<open>The backing store and the gateway's surroundings\<close>

text \<open>
  The backing store is reached through the \<open>node-vault\<close> client, which is not part
  of the repository: the gateway calls \<open>health\<close>, \<open>read\<close>, \<open>write\<close>,
  \<open>addPolicy\<close> and \<open>tokenCreate\<close> on it. The model keeps what the store holds
  (documents by path, policies by name) and a record of every call made. Whether the
  \<open>k\<close>-th call fails in transit (store unreachable, request refused) is given from
  outside by \<open>fault\<close>: \<open>Some m\<close> rejects the call with \<open>Error m\<close>. A call that
  reaches the store succeeds, except a read of a path that holds no document.
  A policy is stored under its name, so installing a name again replaces its rules.

  The other things the gateway observes are given from outside in the same way:
  the bytes of \<open>crypto.randomBytes\<close>, the values of
  \<open>Math.floor(Math.random() * n)\<close> (any index below \<open>n\<close>), the text of
  \<open>new Date().toISOString()\<close>, indexed by the number of values drawn so far, and
  the process environment. \<open>console\<close> holds the lines written to the console and
  \<open>sleeps\<close> the delays, in milliseconds, of the timers awaited.
\<close>

record token_request =
  tr_policies :: json
  tr_ttl :: string
  tr_renewable :: bool
  tr_meta_service :: json
  tr_meta_created_at :: string

datatype call =
    Health
  | Read string
  | Write string document
  | AddPolicy string string
  | TokenCreate token_request

text \<open>One constructor for each console statement of the gateway, with the values it prints.\<close>

datatype log_line =
    InitializingVault
  | VaultIsReady
  | WaitingForVault nat nat
  | PolicyCreated string
  | PolicyExistsOrError string string
  | SecretAlreadyExists string
  | SecretStored string
  | ErrorHandlingSecret string string
  | VaultInitialized
  | VaultInitializationFailed thrown
  | ErrorReadingSecret string thrown
  | SecretUpdated string
  | ErrorUpdatingSecret string thrown
  | ServiceTokenCreated json
  | ErrorCreatingServiceToken json thrown

record world =
  docs :: "string \<rightharpoonup> document"
  policies :: "(string \<times> string) list"
  trace :: "(call \<times> bool) list"
  fault :: "nat \<Rightarrow> string option"
  health_report :: json
  minted :: "nat \<Rightarrow> string"
  random_byte :: "nat \<Rightarrow> 8 word"
  math_random :: "nat \<Rightarrow> nat"
  date :: "nat \<Rightarrow> string"
  draws :: nat
  penv :: "string \<rightharpoonup> string"
  console :: "log_line list"
  sleeps :: "nat list"
  isInitialized :: bool

definition record_call :: "call \<Rightarrow> bool \<Rightarrow> world \<Rightarrow> world" where
  "record_call c ok w = w\<lparr>trace := trace w @ [(c, ok)]\<rparr>"

definition console_log :: "log_line \<Rightarrow> world \<Rightarrow> world" where
  "console_log l w = w\<lparr>console := console w @ [l]\<rparr>"

definition sleep :: "nat \<Rightarrow> world \<Rightarrow> world" where
  "sleep ms w = w\<lparr>sleeps := sleeps w @ [ms]\<rparr>"

definition not_found :: string where
  "not_found = ''Status 404''"

fun upsert :: "string \<Rightarrow> string \<Rightarrow> (string \<times> string) list \<Rightarrow> (string \<times> string) list" where
  "upsert k v [] = [(k, v)]"
| "upsert k v ((k', v') # rest) = (if k = k' then (k, v) # rest else (k', v') # upsert k v rest)"

definition vault_health :: "world \<Rightarrow> (thrown + json) \<times> world" where
  "vault_health w =
     (case fault w (length (trace w)) of
        Some m \<Rightarrow> (Inl (Error m), record_call Health False w)
      | None \<Rightarrow> (Inr (health_report w), record_call Health True w))"

definition vault_read :: "string \<Rightarrow> world \<Rightarrow> (thrown + document) \<times> world" where
  "vault_read path w =
     (case fault w (length (trace w)) of
        Some m \<Rightarrow> (Inl (Error m), record_call (Read path) False w)
      | None \<Rightarrow>
          (case docs w path of
             None \<Rightarrow> (Inl (Error not_found), record_call (Read path) False w)
           | Some d \<Rightarrow> (Inr d, record_call (Read path) True w)))"

definition vault_write :: "string \<Rightarrow> document \<Rightarrow> world \<Rightarrow> (thrown + unit) \<times> world" where
  "vault_write path d w =
     (case fault w (length (trace w)) of
        Some m \<Rightarrow> (Inl (Error m), record_call (Write path d) False w)
      | None \<Rightarrow> (Inr (), record_call (Write path d) True (w\<lparr>docs := (docs w)(path \<mapsto> d)\<rparr>)))"

definition vault_addPolicy :: "string \<Rightarrow> string \<Rightarrow> world \<Rightarrow> (thrown + unit) \<times> world" where
  "vault_addPolicy name rules w =
     (case fault w (length (trace w)) of
        Some m \<Rightarrow> (Inl (Error m), record_call (AddPolicy name rules) False w)
      | None \<Rightarrow>
          (Inr (), record_call (AddPolicy name rules) True
                     (w\<lparr>policies := upsert name rules (policies w)\<rparr>)))"

definition vault_tokenCreate :: "token_request \<Rightarrow> world \<Rightarrow> (thrown + string) \<times> world" where
  "vault_tokenCreate req w =
     (case fault w (length (trace w)) of
        Some m \<Rightarrow> (Inl (Error m), record_call (TokenCreate req) False w)
      | None \<Rightarrow> (Inr (minted w (length (trace w))), record_call (TokenCreate req) True w))"

subsection \<open>Random material and the clock\<close>

text \<open>
  \<^verbatim>\<open>
  private generateSecureKey(length: number): string {
    return crypto.randomBytes(length).toString('hex');
  }
  private generateSecurePassword(length: number): string {
    const charset = 'ABC...XYZabc...xyz0123456789!@#$%^&*';
    let password = '';
    for (let i = 0; i < length; i++) {
      const randomIndex = Math.floor(Math.random() * charset.length);
      password += charset[randomIndex];
    }
    return password;
  }
  \<close>
\<close>

definition hex_byte :: "8 word \<Rightarrow> string" where
  "hex_byte b = [''0123456789abcdef'' ! (unat b div 16), ''0123456789abcdef'' ! (unat b mod 16)]"

definition randomBytes :: "nat \<Rightarrow> world \<Rightarrow> 8 word list \<times> world" where
  "randomBytes n w = (map (random_byte w) [draws w ..< draws w + n], w\<lparr>draws := draws w + n\<rparr>)"

definition generateSecureKey :: "nat \<Rightarrow> world \<Rightarrow> string \<times> world" where
  "generateSecureKey len w =
     (case randomBytes len w of (bytes, w1) \<Rightarrow> (concat (map hex_byte bytes), w1))"

definition charset :: string where
  "charset = ''ABCDEFGHIJKLMNOPQRSTUVWXYZabcdefghijklmnopqrstuvwxyz0123456789!@#$%^&*''"

definition generateSecurePassword :: "nat \<Rightarrow> world \<Rightarrow> string \<times> world" where
  "generateSecurePassword len w =
     (map (\<lambda>k. charset ! (math_random w k mod length charset)) [draws w ..< draws w + len],
      w\<lparr>draws := draws w + len\<rparr>)"

definition toISOString_now :: "world \<Rightarrow> string \<times> world" where
  "toISOString_now w = (date w (draws w), w\<lparr>draws := Suc (draws w)\<rparr>)"

definition env_or :: "(string \<rightharpoonup> string) \<Rightarrow> string \<Rightarrow> string \<Rightarrow> string" where
  "env_or env name d = or_default (env name) d"

section \<open>VaultManager\<close>

subsection \<open>The policies installed at start-up\<close>

text \<open>
  The four policy texts of \<open>setupPolicies\<close>, character by character and line by
  line (\<open>\<newline>\<close> is the line feed), in the order of the object literal.
\<close>

definition policy_admin :: string where
  \<open>policy_admin =
     ''\<newline>'' @
     ''        path "secret/data/transcendence/*" {\<newline>'' @
     ''          capabilities = ["create", "read", "update", "delete", "list"]\<newline>'' @
     ''        }\<newline>'' @
     ''        path "secret/metadata/transcendence/*" {\<newline>'' @
     ''          capabilities = ["list", "delete"]\<newline>'' @
     ''        }\<newline>'' @
     ''        path "auth/token/*" {\<newline>'' @
     ''          capabilities = ["create", "read", "update", "delete", "list"]\<newline>'' @
     ''        }\<newline>'' @
     ''      ''\<close>

definition policy_service :: string where
  \<open>policy_service =
     ''\<newline>'' @
     ''        path "secret/data/transcendence/database" {\<newline>'' @
     ''          capabilities = ["read"]\<newline>'' @
     ''        }\<newline>'' @
     ''        path "secret/data/transcendence/jwt" {\<newline>'' @
     ''          capabilities = ["read"]\<newline>'' @
     ''        }\<newline>'' @
     ''        path "secret/data/transcendence/encryption" {\<newline>'' @
     ''          capabilities = ["read"]\<newline>'' @
     ''        }\<newline>'' @
     ''        path "secret/data/transcendence/oauth" {\<newline>'' @
     ''          capabilities = ["read"]\<newline>'' @
     ''        }\<newline>'' @
     ''        path "secret/data/transcendence/api" {\<newline>'' @
     ''          capabilities = ["read"]\<newline>'' @
     ''        }\<newline>'' @
     ''        path "auth/token/lookup-self" {\<newline>'' @
     ''          capabilities = ["read"]\<newline>'' @
     ''        }\<newline>'' @
     ''      ''\<close>

definition policy_auth :: string where
  \<open>policy_auth =
     ''\<newline>'' @
     ''        path "secret/data/transcendence/database" {\<newline>'' @
     ''          capabilities = ["read"]\<newline>'' @
     ''        }\<newline>'' @
     ''        path "secret/data/transcendence/jwt" {\<newline>'' @
     ''          capabilities = ["read", "update"]\<newline>'' @
     ''        }\<newline>'' @
     ''        path "secret/data/transcendence/oauth" {\<newline>'' @
     ''          capabilities = ["read"]\<newline>'' @
     ''        }\<newline>'' @
     ''      ''\<close>

definition policy_db :: string where
  \<open>policy_db =
     ''\<newline>'' @
     ''        path "secret/data/transcendence/database" {\<newline>'' @
     ''          capabilities = ["read"]\<newline>'' @
     ''        }\<newline>'' @
     ''      ''\<close>

definition policy_table :: "(string \<times> string) list" where
  "policy_table =
     [(''transcendence-admin'', policy_admin),
      (''transcendence-service'', policy_service),
      (''transcendence-auth'', policy_auth),
      (''transcendence-db'', policy_db)]"

subsection \<open>Waiting for the store, installing policies, seeding secrets\<close>

text \<open>
  \<open>(error as Error).message\<close>; the store's client rejects with Errors only.
\<close>

fun error_message :: "thrown \<Rightarrow> string" where
  "error_message (Error m) = m"
| "error_message Undefined = []"

text \<open>
  \<^verbatim>\<open>
  private async waitForVault(maxRetries = 30) {
    for (let i = 0; i < maxRetries; i++) {
      try {
        await this.vault.health();
        console.log('Vault is ready');
        return;
      } catch (error) {
        console.log(`Waiting for Vault... (${i + 1}/${maxRetries})`);
        await new Promise(resolve => setTimeout(resolve, 2000));
      }
    }
    throw new Error('Vault is not available after maximum retries');
  }
  \<close>
\<close>

function waitForVault_loop :: "nat \<Rightarrow> nat \<Rightarrow> world \<Rightarrow> (thrown + unit) \<times> world" where
  "waitForVault_loop i maxRetries w =
     (if i < maxRetries then
        (case vault_health w of
           (Inr h, w1) \<Rightarrow> (Inr (), console_log VaultIsReady w1)
         | (Inl error, w1) \<Rightarrow>
             waitForVault_loop (i + 1) maxRetries
               (sleep 2000 (console_log (WaitingForVault (i + 1) maxRetries) w1)))
      else (Inl (Error ''Vault is not available after maximum retries''), w))"
  by pat_completeness auto
termination
  by (relation "measure (\<lambda>(i, maxRetries, w). maxRetries - i)") auto

definition waitForVault :: "nat \<Rightarrow> world \<Rightarrow> (thrown + unit) \<times> world" where
  "waitForVault maxRetries w = waitForVault_loop 0 maxRetries w"

text \<open>
  \<^verbatim>\<open>
    for (const [name, policy] of Object.entries(policies)) {
      try {
        await this.vault.addPolicy({ name, rules: policy });
        console.log(`Policy '${name}' created`);
      } catch (error) {
        console.log(`Policy '${name}' already exists or error:`, (error as Error).message);
      }
    }
  \<close>
\<close>

fun setupPolicies_loop :: "(string \<times> string) list \<Rightarrow> world \<Rightarrow> world" where
  "setupPolicies_loop [] w = w"
| "setupPolicies_loop ((name, policy) # rest) w =
     (case vault_addPolicy name policy w of
        (Inr u, w1) \<Rightarrow> setupPolicies_loop rest (console_log (PolicyCreated name) w1)
      | (Inl error, w1) \<Rightarrow>
          setupPolicies_loop rest
            (console_log (PolicyExistsOrError name (error_message error)) w1))"

definition setupPolicies :: "world \<Rightarrow> world" where
  "setupPolicies w = setupPolicies_loop policy_table w"

text \<open>
  The table of \<open>storeInitialSecrets\<close>: \<open>secrets_literal\<close> is the object literal,
  given the process environment and the values generated for it (a record); each entry is the
  path and the document under \<open>data\<close>. \<open>initial_secrets\<close> computes the generated
  values in the order the literal writes them, so the random material and the
  timestamps are drawn in that order; \<open>a || b\<close> computes \<open>b\<close> only when \<open>a\<close> is
  falsy.
\<close>

record generated =
  gen_password :: string
  gen_root_password :: string
  gen_jwt_secret :: string
  gen_jwt_created_at :: string
  gen_encryption_key :: string
  gen_encryption_created_at :: string
  gen_google_client_secret :: string
  gen_oauth_created_at :: string
  gen_session_secret :: string
  gen_api_created_at :: string

definition secrets_literal :: "(string \<rightharpoonup> string) \<Rightarrow> generated \<Rightarrow> (string \<times> document) list" where
  "secrets_literal env g =
     [(''secret/data/transcendence/database'', map_of
          [(''host'', ''database-service''),
           (''port'', ''3306''),
           (''username'', ''user''),
           (''password'', gen_password g),
           (''root_password'', gen_root_password g),
           (''main_database'', ''transcendence''),
           (''shared_database'', ''transcendence''),
           (''url_template'', ''mysql://{username}:{password}@'' @ ''{host}:{port}/{database}'')]),
       (''secret/data/transcendence/jwt'', map_of
          [(''secret'', gen_jwt_secret g),
           (''algorithm'', ''HS256''),
           (''expiration'', ''24h''),
           (''refresh_expiration'', ''7d''),
           (''issuer'', ''transcendence''),
           (''audience'', ''transcendence-users''),
           (''created_at'', gen_jwt_created_at g)]),
       (''secret/data/transcendence/encryption'', map_of
          [(''key'', gen_encryption_key g),
           (''algorithm'', ''aes-256-gcm''),
           (''iv_length'', ''16''),
           (''created_at'', gen_encryption_created_at g)]),
       (''secret/data/transcendence/oauth'', map_of
          [(''google_client_id'', env_or env ''GOOGLE_CLIENT_ID'' ''your-google-client-id''),
           (''google_client_secret'', gen_google_client_secret g),
           (''github_client_id'', env_or env ''GITHUB_CLIENT_ID'' ''Ov23liYOrKaDhnkpgwvT''),
           (''github_client_secret'',
              env_or env ''GITHUB_CLIENT_SECRET'' ''e2761b04180f7b5b2f1199e9dc97d699e8074588''),
           (''github_redirect_uri'',
              env_or env ''GITHUB_REDIRECT_URI'' ''https://localhost/oauth/github/callback''),
           (''intra_client_id'',
              env_or env ''INTRA_CLIENT_ID''
                ''u-s4t2ud-2e713f8650a64fa14b4653d833834963aaa8d2191f94adf2ed6090215b3b846b''),
           (''intra_client_secret'',
              env_or env ''INTRA_CLIENT_SECRET''
                ''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''),
           (''intra_redirect_uri'',
              env_or env ''INTRA_REDIRECT_URI'' ''https://localhost/oauth/42/callback''),
           (''callback_url_base'',
              env_or env ''CALLBACK_URL_BASE'' ''https://localhost/auth/callback''),
           (''created_at'', gen_oauth_created_at g)]),
       (''secret/data/transcendence/api'', map_of
          [(''rate_limit_max'', env_or env ''RATE_LIMIT_MAX'' ''100''),
           (''rate_limit_window'', env_or env ''RATE_LIMIT_WINDOW'' ''60000''),
           (''cors_origin'', env_or env ''CORS_ORIGIN'' ''http://localhost:3000,https://localhost''),
           (''session_secret'', gen_session_secret g),
           (''api_version'', ''1.0.0''),
           (''created_at'', gen_api_created_at g)]),
       (''secret/data/transcendence/services'', map_of
          [(''auth_service_url'', ''http://auth-service:3000''),
           (''user_service_url'', ''http://user-service:3001''),
           (''game_service_url'', ''http://game-service:3002''),
           (''gateway_service_url'', ''http://gateway-service:3003''),
           (''vault_service_url'', ''http://vault-service:8300''),
           (''auth_service_port'', ''3000''),
           (''user_service_port'', ''3001''),
           (''game_service_port'', ''3002''),
           (''gateway_service_port'', ''3003''),
           (''vault_service_port'', ''8300'')]),
       (''secret/data/transcendence/game'', map_of
          [(''ws_heartbeat_interval'', ''30000''),
           (''ws_connection_timeout'', ''60000''),
           (''game_tick_rate'', ''60''),
           (''match_timeout'', ''600000''),
           (''matchmaking_timeout'', ''30000''),
           (''max_players_per_game'', ''4''),
           (''force_https'', ''true''),
           (''hsts_max_age'', ''31536000''),
           (''security_headers'', ''true'')])]"

definition initial_secrets :: "world \<Rightarrow> (string \<times> document) list \<times> world" where
  "initial_secrets w0 =
    (case generateSecurePassword 24 w0 of (password, w1) \<Rightarrow>
     case generateSecurePassword 32 w1 of (root_password, w2) \<Rightarrow>
     case generateSecureKey 64 w2 of (jwt_secret, w3) \<Rightarrow>
     case toISOString_now w3 of (jwt_created_at, w4) \<Rightarrow>
     case generateSecureKey 32 w4 of (encryption_key, w5) \<Rightarrow>
     case toISOString_now w5 of (encryption_created_at, w6) \<Rightarrow>
     case (case penv w6 ''GOOGLE_CLIENT_SECRET'' of
             None \<Rightarrow> generateSecureKey 32 w6
           | Some s \<Rightarrow> if s = [] then generateSecureKey 32 w6 else (s, w6)) of
       (google_client_secret, w7) \<Rightarrow>
     case toISOString_now w7 of (oauth_created_at, w8) \<Rightarrow>
     case generateSecureKey 32 w8 of (session_secret, w9) \<Rightarrow>
     case toISOString_now w9 of (api_created_at, w10) \<Rightarrow>
       (secrets_literal (penv w10)
          \<lparr>gen_password = password, gen_root_password = root_password,
           gen_jwt_secret = jwt_secret, gen_jwt_created_at = jwt_created_at,
           gen_encryption_key = encryption_key,
           gen_encryption_created_at = encryption_created_at,
           gen_google_client_secret = google_client_secret,
           gen_oauth_created_at = oauth_created_at,
           gen_session_secret = session_secret, gen_api_created_at = api_created_at\<rparr>,
        w10))"

text \<open>
  \<^verbatim>\<open>
    for (const [path, secret] of Object.entries(secrets)) {
      try {
        try {
          await this.vault.read(path);
          console.log(`Secret already exists at ${path}`);
        } catch (readError) {
          await this.vault.write(path, secret);
          console.log(`Secret stored at ${path}`);
        }
      } catch (error) {
        console.log(`Error handling secret at ${path}:`, (error as Error).message);
      }
    }
  \<close>
\<close>

fun storeInitialSecrets_loop :: "(string \<times> document) list \<Rightarrow> world \<Rightarrow> world" where
  "storeInitialSecrets_loop [] w = w"
| "storeInitialSecrets_loop ((path, secret) # rest) w =
     (case vault_read path w of
        (Inr d, w1) \<Rightarrow>
          storeInitialSecrets_loop rest (console_log (SecretAlreadyExists path) w1)
      | (Inl readError, w1) \<Rightarrow>
          (case vault_write path secret w1 of
             (Inr u, w2) \<Rightarrow> storeInitialSecrets_loop rest (console_log (SecretStored path) w2)
           | (Inl error, w2) \<Rightarrow>
               storeInitialSecrets_loop rest
                 (console_log (ErrorHandlingSecret path (error_message error)) w2)))"

definition storeInitialSecrets :: "world \<Rightarrow> world" where
  "storeInitialSecrets w =
     (case initial_secrets w of (secrets, w1) \<Rightarrow> storeInitialSecrets_loop secrets w1)"

text \<open>
  \<^verbatim>\<open>
  async initialize() {
    try {
      console.log('Initializing Vault...');
      await this.waitForVault();
      await this.setupPolicies();
      await this.storeInitialSecrets();
      this.isInitialized = true;
      console.log('Vault initialized successfully');
    } catch (error) {
      console.error('Vault initialization failed:', error);
      throw error;
    }
  }
  \<close>
\<close>

definition initialize :: "world \<Rightarrow> (thrown + unit) \<times> world" where
  "initialize w =
     (case waitForVault 30 (console_log InitializingVault w) of
        (Inl error, w1) \<Rightarrow> (Inl error, console_log (VaultInitializationFailed error) w1)
      | (Inr u, w1) \<Rightarrow>
          (Inr (),
           console_log VaultInitialized
             ((storeInitialSecrets (setupPolicies w1))\<lparr>isInitialized := True\<rparr>)))"

subsection \<open>Reading, writing and rotating secrets\<close>

text \<open>
  \<^verbatim>\<open>
  async getSecret(path: string): Promise<any> {
    try {
      const result = await this.vault.read(`secret/data/transcendence/${path}`);
      return result.data.data;
    } catch (error) {
      console.error(`Error reading secret from ${path}:`, error);
      throw error;
    }
  }
  async updateSecret(path: string, data: any): Promise<void> {
    try {
      await this.vault.write(`secret/data/transcendence/${path}`, { data });
      console.log(`Secret updated at transcendence/${path}`);
    } catch (error) {
      console.error(`Error updating secret at ${path}:`, error);
      throw error;
    }
  }
  \<close>
\<close>

definition getSecret :: "string \<Rightarrow> world \<Rightarrow> (thrown + document) \<times> world" where
  "getSecret path w =
     (case vault_read (''secret/data/transcendence/'' @ path) w of
        (Inr d, w1) \<Rightarrow> (Inr d, w1)
      | (Inl error, w1) \<Rightarrow> (Inl error, console_log (ErrorReadingSecret path error) w1))"

definition updateSecret :: "string \<Rightarrow> document \<Rightarrow> world \<Rightarrow> (thrown + unit) \<times> world" where
  "updateSecret path data w =
     (case vault_write (''secret/data/transcendence/'' @ path) data w of
        (Inr u, w1) \<Rightarrow> (Inr (), console_log (SecretUpdated path) w1)
      | (Inl error, w1) \<Rightarrow> (Inl error, console_log (ErrorUpdatingSecret path error) w1))"

text \<open>
  \<^verbatim>\<open>
  async rotateJWTSecret(): Promise<string> {
    const currentJwt = await this.getSecret('jwt');
    const newSecret = this.generateSecureKey(64);
    await this.updateSecret('jwt', {
      ...currentJwt,
      secret: newSecret,
      rotated_at: new Date().toISOString(),
      previous_secret: currentJwt.secret // Garder l'ancien pour la transition
    });
    return newSecret;
  }
  \<close>
  The spread copies every field of the current document; the three properties
  written after it replace fields of the same name. When the current document has
  no \<open>secret\<close>, \<open>previous_secret\<close> is \<open>undefined\<close> and the written document has
  no such field.
\<close>

definition rotated_document :: "document \<Rightarrow> string \<Rightarrow> string \<Rightarrow> document" where
  "rotated_document currentJwt newSecret now =
     (currentJwt(''secret'' \<mapsto> newSecret, ''rotated_at'' \<mapsto> now))
       (''previous_secret'' := currentJwt ''secret'')"

definition rotateJWTSecret :: "world \<Rightarrow> (thrown + string) \<times> world" where
  "rotateJWTSecret w =
     (case getSecret ''jwt'' w of
        (Inl error, w1) \<Rightarrow> (Inl error, w1)
      | (Inr currentJwt, w1) \<Rightarrow>
          (case generateSecureKey 64 w1 of (newSecret, w2) \<Rightarrow>
           case toISOString_now w2 of (now, w3) \<Rightarrow>
             (case updateSecret ''jwt'' (rotated_document currentJwt newSecret now) w3 of
                (Inl error, w4) \<Rightarrow> (Inl error, w4)
              | (Inr u, w4) \<Rightarrow> (Inr newSecret, w4))))"

text \<open>
  \<open>n\<close> rotations one after the other (\<open>n\<close> requests to \<open>POST /api/jwt/rotate\<close>),
  each of which is carried out; the first rotation that throws ends the sequence.
\<close>

fun rotate_times :: "nat \<Rightarrow> world \<Rightarrow> thrown + world" where
  "rotate_times 0 w = Inr w"
| "rotate_times (Suc n) w =
     (case rotate_times n w of
        Inl error \<Rightarrow> Inl error
      | Inr w1 \<Rightarrow>
          (case rotateJWTSecret w1 of
             (Inl error, w2) \<Rightarrow> Inl error
           | (Inr newSecret, w2) \<Rightarrow> Inr w2))"

subsection \<open>Database configuration\<close>

text \<open>
  \<^verbatim>\<open>
  async getDatabaseConfig(): Promise<any> {
    const dbSecrets = await this.getSecret('database');
    return {
      host: dbSecrets.host,
      port: parseInt(dbSecrets.port),
      username: dbSecrets.username,
      password: dbSecrets.password,
      database: dbSecrets.shared_database || 'transcendence',
      getDatabaseUrl: () => {
        const database = dbSecrets.shared_database || 'transcendence';
        return `mysql://${dbSecrets.username}:${dbSecrets.password}@${dbSecrets.host}:${dbSecrets.port}/${database}`;
      }
    };
  }
  \<close>
  The arrow function declares no parameter; a call may still pass any number of
  arguments, which is the list the model's closure takes.
\<close>

record db_config =
  host :: "string option"
  port :: "int option"
  username :: "string option"
  password :: "string option"
  database :: string
  getDatabaseUrl :: "json option list \<Rightarrow> string"

definition getDatabaseConfig :: "world \<Rightarrow> (thrown + db_config) \<times> world" where
  "getDatabaseConfig w =
     (case getSecret ''database'' w of
        (Inl error, w1) \<Rightarrow> (Inl error, w1)
      | (Inr dbSecrets, w1) \<Rightarrow>
          (Inr \<lparr>host = dbSecrets ''host'',
                port = parseInt (js_str (dbSecrets ''port'')),
                username = dbSecrets ''username'',
                password = dbSecrets ''password'',
                database = or_default (dbSecrets ''shared_database'') ''transcendence'',
                getDatabaseUrl = (\<lambda>arguments.
                  let database = or_default (dbSecrets ''shared_database'') ''transcendence''
                  in ''mysql://'' @ js_str (dbSecrets ''username'') @ '':'' @
                     js_str (dbSecrets ''password'') @ ''@'' @ js_str (dbSecrets ''host'') @
                     '':'' @ js_str (dbSecrets ''port'') @ ''/'' @ database)\<rparr>,
           w1))"

subsection \<open>Service tokens and health\<close>

text \<open>
  \<^verbatim>\<open>
  async createServiceToken(serviceName: string, policies: string[]): Promise<string> {
    try {
      const tokenData = await this.vault.tokenCreate({
        policies: policies, ttl: '24h', renewable: true,
        meta: { service: serviceName, created_at: new Date().toISOString() }
      });
      console.log(`Service token created for ${serviceName}`);
      return tokenData.auth.client_token;
    } catch (error) {
      console.error(`Error creating service token for ${serviceName}:`, error);
      throw error;
    }
  }
  async getHealthStatus(): Promise<any> {
    try {
      const health = await this.vault.health();
      return { vault_status: 'healthy', initialized: health.initialized,
               sealed: health.sealed, standby: health.standby, version: health.version };
    } catch (error) {
      return { vault_status: 'unhealthy', error: (error as Error).message };
    }
  }
  \<close>
  The arguments arrive from a parsed request body, so they are JSON values whatever
  the declared types say. \<open>getHealthStatus\<close> has the result type of a function that
  may throw, as its caller treats it. When the health call resolves with \<open>null\<close>,
  reading \<open>health.initialized\<close> throws inside the \<open>try\<close> block, and the
  \<open>catch\<close> returns the message of that TypeError (the one of V8).
\<close>

definition createServiceToken :: "json \<Rightarrow> json \<Rightarrow> world \<Rightarrow> (thrown + string) \<times> world" where
  "createServiceToken serviceName policies' w =
     (case toISOString_now w of (now, w1) \<Rightarrow>
       (case vault_tokenCreate
               \<lparr>tr_policies = policies', tr_ttl = ''24h'', tr_renewable = True,
                tr_meta_service = serviceName, tr_meta_created_at = now\<rparr> w1 of
          (Inr client_token, w2) \<Rightarrow>
            (Inr client_token, console_log (ServiceTokenCreated serviceName) w2)
        | (Inl error, w2) \<Rightarrow>
            (Inl error, console_log (ErrorCreatingServiceToken serviceName error) w2)))"

definition getHealthStatus :: "world \<Rightarrow> (thrown + json) \<times> world" where
  "getHealthStatus w =
     (case vault_health w of
        (Inr health, w1) \<Rightarrow>
          (if health = JNull
           then (Inr (js_object
                   [(''vault_status'', Some (JStr ''unhealthy'')),
                    (''error'',
                     Some (JStr ''Cannot read properties of null (reading 'initialized')''))]),
                 w1)
           else (Inr (js_object
                   [(''vault_status'', Some (JStr ''healthy'')),
                    (''initialized'', field health ''initialized''),
                    (''sealed'', field health ''sealed''),
                    (''standby'', field health ''standby''),
                    (''version'', field health ''version'')]),
                 w1))
      | (Inl error, w1) \<Rightarrow>
          (Inr (js_object
                  [(''vault_status'', Some (JStr ''unhealthy'')),
                   (''error'', Some (JStr (error_message error)))]),
           w1))"

section \<open>The HTTP routes of the gateway\<close>

text \<open>
  A response is its status code and its JSON body; \<open>res.json\<close> alone answers with
  status 200. \<open>express.json()\<close> leaves the parsed body in \<open>req.body\<close>, an empty
  object when the request has none.

  \<^verbatim>\<open>
  app.get('/health', async (req, res) => {
    try {
      const health = await vaultManager.getHealthStatus();
      res.json({ service: 'vault-service', status: 'healthy',
                 timestamp: new Date().toISOString(), vault: health });
    } catch (error) {
      res.status(500).json({ service: 'vault-service', status: 'unhealthy',
        timestamp: new Date().toISOString(),
        error: error instanceof Error ? error.message : 'Unknown error' });
    }
  });
  \<close>
\<close>

record http_response =
  status :: nat
  body :: json

definition get_health :: "world \<Rightarrow> http_response \<times> world" where
  "get_health w =
     (case getHealthStatus w of
        (Inr health, w1) \<Rightarrow>
          (case toISOString_now w1 of (now, w2) \<Rightarrow>
             (\<lparr>status = 200,
               body = js_object
                 [(''service'', Some (JStr ''vault-service'')),
                  (''status'', Some (JStr ''healthy'')),
                  (''timestamp'', Some (JStr now)),
                  (''vault'', Some health)]\<rparr>,
              w2))
      | (Inl error, w1) \<Rightarrow>
          (case toISOString_now w1 of (now, w2) \<Rightarrow>
             (\<lparr>status = 500,
               body = js_object
                 [(''service'', Some (JStr ''vault-service'')),
                  (''status'', Some (JStr ''unhealthy'')),
                  (''timestamp'', Some (JStr now)),
                  (''error'', Some (JStr (message_or error ''Unknown error'')))]\<rparr>,
              w2)))"

text \<open>
  \<^verbatim>\<open>
  app.post('/api/tokens/service', async (req, res) => {
    try {
      const { serviceName, policies } = req.body;
      if (!serviceName || !policies) {
        return res.status(400).json({ success: false,
          error: 'serviceName and policies are required' });
      }
      const token = await vaultManager.createServiceToken(serviceName, policies);
      res.json({ success: true, data: { token } });
    } catch (error) {
      res.status(500).json({ success: false,
        error: error instanceof Error ? error.message : 'Token creation error' });
    }
  });
  \<close>
\<close>

definition bad_request :: http_response where
  "bad_request =
     \<lparr>status = 400,
      body = js_object
        [(''success'', Some (JBool False)),
         (''error'', Some (JStr ''serviceName and policies are required''))]\<rparr>"

definition post_tokens_service :: "json \<Rightarrow> world \<Rightarrow> http_response \<times> world" where
  "post_tokens_service req_body w =
     (let serviceName = field req_body ''serviceName'';
          policies' = field req_body ''policies''
      in if falsy serviceName \<or> falsy policies' then (bad_request, w)
         else
           (case (serviceName, policies') of
              (Some name, Some ps) \<Rightarrow>
                (case createServiceToken name ps w of
                   (Inr token, w1) \<Rightarrow>
                     (\<lparr>status = 200,
                       body = js_object
                         [(''success'', Some (JBool True)),
                          (''data'', Some (js_object [(''token'', Some (JStr token))]))]\<rparr>,
                      w1)
                 | (Inl error, w1) \<Rightarrow>
                     (\<lparr>status = 500,
                       body = js_object
                         [(''success'', Some (JBool False)),
                          (''error'',
                           Some (JStr (message_or error ''Token creation error'')))]\<rparr>,
                      w1))
            | _ \<Rightarrow> (bad_request, w)))"


text \<open>
  \<^verbatim>\<open>
  app.get('/api/database/config', async (req, res) => {
    try {
      const config = await vaultManager.getDatabaseConfig();
      res.json({ success: true, data: config });
    } catch (error) {
      res.status(500).json({ success: false,
        error: error instanceof Error ? error.message : 'Database config error' });
    }
  });
  \<close>
  \<open>res.json\<close> sends the text that \<open>JSON.stringify\<close> gives for its argument: a
  member whose value is a function or \<open>undefined\<close> is left out, and the number
  \<open>NaN\<close> is written \<open>null\<close>. \<open>stringified\<close> is the JSON value of that text for
  the configuration object.
\<close>

definition stringified :: "db_config \<Rightarrow> json" where
  "stringified config =
     js_object
       [(''host'', map_option JStr (host config)),
        (''port'', Some (case port config of None \<Rightarrow> JNull | Some n \<Rightarrow> JNum n)),
        (''username'', map_option JStr (username config)),
        (''password'', map_option JStr (password config)),
        (''database'', Some (JStr (database config)))]"

definition get_database_config :: "world \<Rightarrow> http_response \<times> world" where
  "get_database_config w =
     (case getDatabaseConfig w of
        (Inr config, w1) \<Rightarrow>
          (\<lparr>status = 200,
            body = js_object
              [(''success'', Some (JBool True)),
               (''data'', Some (stringified config))]\<rparr>,
           w1)
      | (Inl error, w1) \<Rightarrow>
          (\<lparr>status = 500,
            body = js_object
              [(''success'', Some (JBool False)),
               (''error'', Some (JStr (message_or error ''Database config error'')))]\<rparr>,
           w1))"
section \<open>VaultClient\<close>

text \<open>
  The client talks to the gateway over HTTP. What comes back for the \<open>k\<close>-th
  request it sends is given by the network: the request emits \<open>error\<close> with a
  message; or a response arrives, with its status code, its status message, the text
  of its body and what \<open>JSON.parse\<close> makes of that text (\<open>None\<close> when it throws);
  or nothing comes back. \<open>JSON.parse\<close> is the platform's, so its result is part of
  what the network gives and nothing is assumed about it. \<open>sent\<close> lists the
  endpoints requested so far, \<open>client_console\<close> the console lines and \<open>slept\<close> the
  delays awaited, in milliseconds.
\<close>

datatype outcome =
    RequestError string
  | Answered nat string string "json option"
  | Pending

text \<open>One constructor for each console statement of the two client methods.\<close>

datatype client_log =
    SecretRetrieved string nat
  | RetrievalFailedRetrying nat rat
  | RetrievalFailed string rat
  | VaultServiceReady string
  | WaitingForVaultService nat nat rat

record net =
  outcomes :: "nat \<Rightarrow> outcome"
  sent :: "string list"
  client_console :: "client_log list"
  slept :: "rat list"

text \<open>
  The retry count of the configuration is a JavaScript number, here a rational:
  it may be negative or fractional. \<open>a || b\<close> on numbers takes \<open>b\<close> when \<open>a\<close> is
  absent or zero.
\<close>

record client_config =
  cfg_host :: "string option"
  cfg_port :: "nat option"
  cfg_serviceName :: string
  cfg_token :: "string option"
  cfg_timeout :: "nat option"
  cfg_retryCount :: "rat option"

record client =
  baseUrl :: string
  serviceName :: string
  token :: "string option"
  timeout :: nat
  retryCount :: rat

definition nat_or :: "nat option \<Rightarrow> nat \<Rightarrow> nat" where
  "nat_or v d = (case v of None \<Rightarrow> d | Some n \<Rightarrow> if n = 0 then d else n)"

definition number_or :: "rat option \<Rightarrow> rat \<Rightarrow> rat" where
  "number_or v d = (case v of None \<Rightarrow> d | Some n \<Rightarrow> if n = 0 then d else n)"

text \<open>
  \<^verbatim>\<open>
  constructor(config) {
    const host = config.host || 'vault-service';
    const port = config.port || 8300;
    this.baseUrl = `http://${host}:${port}`;
    this.serviceName = config.serviceName;
    this.token = config.token;
    this.timeout = config.timeout || 10000; // 10s timeout
    this.retryCount = config.retryCount || 3;
  }
  \<close>
\<close>

definition VaultClient :: "client_config \<Rightarrow> client" where
  "VaultClient config =
     (let host' = or_default (cfg_host config) ''vault-service'';
          port' = nat_or (cfg_port config) 8300
      in \<lparr>baseUrl = ''http://'' @ host' @ '':'' @ show_nat port',
          serviceName = cfg_serviceName config,
          token = cfg_token config,
          timeout = nat_or (cfg_timeout config) 10000,
          retryCount = number_or (cfg_retryCount config) 3\<rparr>)"

definition client_log :: "client_log \<Rightarrow> net \<Rightarrow> net" where
  "client_log l w = w\<lparr>client_console := client_console w @ [l]\<rparr>"

definition client_sleep :: "rat \<Rightarrow> net \<Rightarrow> net" where
  "client_sleep ms w = w\<lparr>slept := slept w @ [ms]\<rparr>"

text \<open>
  \<^verbatim>\<open>
  makeRequest(endpoint, options = {}) {
    return new Promise((resolve, reject) => {
      ...
      const req = http.request(requestOptions, (res) => {
        let data = '';
        res.on('data', (chunk) => { data += chunk; });
        res.on('end', () => {
          try {
            const jsonData = JSON.parse(data);
            if (res.statusCode >= 200 && res.statusCode < 300) {
              resolve(jsonData);
            } else {
              reject(new Error(`HTTP ${res.statusCode}: ${jsonData.error || res.statusMessage}`));
            }
          } catch (error) {
            reject(new Error(`Invalid JSON response: ${data}`));
          }
        });
      });
      req.on('error', reject);
      ...
      req.end();
    });
  }
  \<close>
  The promise has no time-out: when nothing comes back it never settles, which is
  the result \<open>None\<close>. The \<open>catch\<close> also receives the TypeError of
  \<open>jsonData.error\<close> when the body is the text \<open>null\<close>. The message of the
  rejection carries the whole text of the body when that text cannot be used.
\<close>

definition makeRequest :: "string \<Rightarrow> net \<Rightarrow> (thrown + json) option \<times> net" where
  "makeRequest endpoint w =
     (case outcomes w (length (sent w)) of
        RequestError m \<Rightarrow> (Some (Inl (Error m)), w\<lparr>sent := sent w @ [endpoint]\<rparr>)
      | Pending \<Rightarrow> (None, w\<lparr>sent := sent w @ [endpoint]\<rparr>)
      | Answered statusCode statusMessage data parsed \<Rightarrow>
          (case parsed of
             None \<Rightarrow>
               (Some (Inl (Error (''Invalid JSON response: '' @ data))),
                w\<lparr>sent := sent w @ [endpoint]\<rparr>)
           | Some jsonData \<Rightarrow>
               if 200 \<le> statusCode \<and> statusCode < 300
               then (Some (Inr jsonData), w\<lparr>sent := sent w @ [endpoint]\<rparr>)
               else if jsonData = JNull
               then (Some (Inl (Error (''Invalid JSON response: '' @ data))),
                     w\<lparr>sent := sent w @ [endpoint]\<rparr>)
               else (Some (Inl (Error (''HTTP '' @ show_nat statusCode @ '': '' @
                       (case field jsonData ''error'' of
                          None \<Rightarrow> statusMessage
                        | Some e \<Rightarrow> if truthy e then js_String e else statusMessage)))),
                     w\<lparr>sent := sent w @ [endpoint]\<rparr>)))"

text \<open>
  \<^verbatim>\<open>
  makeHealthRequest() {
    return new Promise((resolve, reject) => {
      const url = new URL(`${this.baseUrl}/health`);
      const options = { hostname: url.hostname, port: url.port, path: url.pathname,
                        method: 'GET', timeout: 5000 };
      const req = http.request(options, (res) => {
        if (res.statusCode === 200) { resolve(); }
        else { reject(new Error(`Health check failed: ${res.statusCode}`)); }
      });
      req.on('error', reject);
      req.on('timeout', () => { req.destroy(); reject(new Error('Health check timeout')); });
      req.end();
    });
  }
  \<close>
  The health request is settled by the status line, and by its time-out when nothing
  comes back.
\<close>

definition makeHealthRequest :: "net \<Rightarrow> (thrown + unit) \<times> net" where
  "makeHealthRequest w =
     (case outcomes w (length (sent w)) of
        RequestError m \<Rightarrow> (Inl (Error m), w\<lparr>sent := sent w @ [''/health'']\<rparr>)
      | Pending \<Rightarrow> (Inl (Error ''Health check timeout''), w\<lparr>sent := sent w @ [''/health'']\<rparr>)
      | Answered statusCode statusMessage data parsed \<Rightarrow>
          if statusCode = 200 then (Inr (), w\<lparr>sent := sent w @ [''/health'']\<rparr>)
          else (Inl (Error (''Health check failed: '' @ show_nat statusCode)),
                w\<lparr>sent := sent w @ [''/health'']\<rparr>))"




text \<open>
  \<^verbatim>\<open>
  async waitForVault(maxRetries = 30) {
    for (let i = 0; i < maxRetries; i++) {
      try {
        await this.makeHealthRequest();
        console.log(`Vault service is ready for ${this.serviceName}`);
        return;
      } catch (error) {
        const waitTime = Math.min(1000 * Math.pow(1.5, i), 10000); // Exponential backoff, max 10s
        console.log(`Waiting for Vault service... (${i + 1}/${maxRetries}) - retry in ${waitTime}ms`);
        await this.sleep(waitTime);
      }
    }
    throw new Error('Vault service is not available after maximum retries');
  }
  \<close>
  The delay is a rational number of milliseconds. The double-precision value the
  code computes is this number: \<open>1000 * 1.5 ^ i\<close> is exact in double precision
  while it is below the ceiling (for \<open>i\<close> up to 5), and from \<open>i = 6\<close> on it
  exceeds 10000, rounded or not, so that the minimum is 10000.
\<close>

definition waitTime :: "nat \<Rightarrow> rat" where
  "waitTime i = min (1000 * (3 / 2) ^ i) 10000"

function client_waitForVault_loop ::
  "client \<Rightarrow> nat \<Rightarrow> nat \<Rightarrow> net \<Rightarrow> (thrown + unit) \<times> net" where
  "client_waitForVault_loop c i maxRetries w =
     (if i < maxRetries then
        (case makeHealthRequest w of
           (Inr u, w1) \<Rightarrow> (Inr (), client_log (VaultServiceReady (serviceName c)) w1)
         | (Inl error, w1) \<Rightarrow>
             client_waitForVault_loop c (i + 1) maxRetries
               (client_sleep (waitTime i)
                  (client_log (WaitingForVaultService (i + 1) maxRetries (waitTime i)) w1)))
      else (Inl (Error ''Vault service is not available after maximum retries''), w))"
  by pat_completeness auto
termination
  by (relation "measure (\<lambda>(c, i, maxRetries, w). maxRetries - i)") auto

definition client_waitForVault :: "client \<Rightarrow> nat \<Rightarrow> net \<Rightarrow> (thrown + unit) \<times> net" where
  "client_waitForVault c maxRetries w = client_waitForVault_loop c 0 maxRetries w"

text \<open>
  \<^verbatim>\<open>
  async getDatabaseConfig() {
    const response = await this.makeRequest('/api/database/config');
    if (!response.success) {
      throw new Error(`Failed to get database config: ${response.error}`);
    }
    return response.data;
  }
  async getDatabaseUrl(database) {
    const dbConfig = await this.getDatabaseConfig();
    return dbConfig.getDatabaseUrl(database);
  }
  \<close>
  The configuration that the client holds is a member of a value returned by
  \<open>JSON.parse\<close>. Such a value is built from objects, arrays, strings, numbers,
  booleans and \<open>null\<close>; none of its members is a function, and no prototype of
  these has a member \<open>getDatabaseUrl\<close>. So the call
  \<open>dbConfig.getDatabaseUrl(database)\<close> has nothing to apply: it throws a TypeError
  (the messages are those of V8), whatever the value and the argument are.
\<close>

definition client_getDatabaseConfig ::
  "client \<Rightarrow> net \<Rightarrow> (thrown + json option) option \<times> net" where
  "client_getDatabaseConfig c w =
     (case makeRequest ''/api/database/config'' w of
        (None, w1) \<Rightarrow> (None, w1)
      | (Some (Inl error), w1) \<Rightarrow> (Some (Inl error), w1)
      | (Some (Inr response), w1) \<Rightarrow>
          (if response = JNull
           then (Some (Inl (Error ''Cannot read properties of null (reading 'success')'')), w1)
           else if falsy (field response ''success'')
           then (Some (Inl (Error (''Failed to get database config: '' @
                   template (field response ''error'')))), w1)
           else (Some (Inr (field response ''data'')), w1)))"

definition client_getDatabaseUrl ::
  "client \<Rightarrow> string \<Rightarrow> net \<Rightarrow> (thrown + string) option \<times> net" where
  "client_getDatabaseUrl c database' w =
     (case client_getDatabaseConfig c w of
        (None, w1) \<Rightarrow> (None, w1)
      | (Some (Inl error), w1) \<Rightarrow> (Some (Inl error), w1)
      | (Some (Inr dbConfig), w1) \<Rightarrow>
          (case dbConfig of
             None \<Rightarrow>
               (Some (Inl (Error
                  ''Cannot read properties of undefined (reading 'getDatabaseUrl')'')), w1)
           | Some config \<Rightarrow>
               if config = JNull
               then (Some (Inl (Error
                  ''Cannot read properties of null (reading 'getDatabaseUrl')'')), w1)
               else (Some (Inl (Error ''dbConfig.getDatabaseUrl is not a function'')), w1)))"

text \<open>
  \<^verbatim>\<open>
  function getServiceDatabase(serviceName) {
    const dbMap = { 'auth-service': 'auth_db', 'user-service': 'user_db',
                    'game-service': 'game_db' };
    return dbMap[serviceName] || 'transcendence';
  }
  \<close>
  The literal inherits the members of \<open>Object.prototype\<close>: for their names the
  lookup gives a function or an object, which is truthy and is what the function
  then returns (\<open>Inherited\<close>).
\<close>

datatype database_name = Name string | Inherited string

definition object_prototype_members :: "string list" where
  "object_prototype_members =
     [''constructor'', ''__defineGetter__'', ''__defineSetter__'', ''hasOwnProperty'',
      ''__lookupGetter__'', ''__lookupSetter__'', ''isPrototypeOf'',
      ''propertyIsEnumerable'', ''toString'', ''valueOf'', ''__proto__'',
      ''toLocaleString'']"

definition getServiceDatabase :: "string \<Rightarrow> database_name" where
  "getServiceDatabase name =
     (case map_of [(''auth-service'', ''auth_db''), (''user-service'', ''user_db''),
                   (''game-service'', ''game_db'')] name of
        Some d \<Rightarrow> Name d
      | None \<Rightarrow>
          if name \<in> set object_prototype_members then Inherited name
          else Name ''transcendence'')"

section \<open>Reading the record of a run\<close>






text \<open>
  The seven paths of the table of \<open>storeInitialSecrets\<close>, in its order, and the shape
  of the calls that seeding a list of paths makes: for each path in turn a read and,
  only after a read that failed, one write to the same path.
\<close>

definition secret_paths :: "string list" where
  "secret_paths =
     [''secret/data/transcendence/database'', ''secret/data/transcendence/jwt'',
      ''secret/data/transcendence/encryption'', ''secret/data/transcendence/oauth'',
      ''secret/data/transcendence/api'', ''secret/data/transcendence/services'',
      ''secret/data/transcendence/game'']"


text \<open>
  The console lines of \<open>n\<close> failed health checks in a row, the first of them the
  check with loop index \<open>i\<close>.
\<close>

fun waiting_lines :: "nat \<Rightarrow> nat \<Rightarrow> nat \<Rightarrow> log_line list" where
  "waiting_lines i maxRetries 0 = []"
| "waiting_lines i maxRetries (Suc n) =
     WaitingForVault (i + 1) maxRetries # waiting_lines (i + 1) maxRetries n"

fun write_attempts :: "(call \<times> bool) list \<Rightarrow> string list" where
  "write_attempts [] = []"
| "write_attempts ((Write path d, ok) # tr) = path # write_attempts tr"
| "write_attempts (c # tr) = write_attempts tr"

section \<open>Reading the record of the client\<close>

text \<open>
  \<open>probe out\<close> is a fresh network on which every request meets \<open>out\<close>.
  \<open>attempt_outcome out\<close> is how one attempt of \<open>getSecret\<close>, the body of its
  \<open>try\<close> block, ends on \<open>out\<close>: with the value it returns, with the error it
  throws, or never (\<open>None\<close>). \<open>retry_lines\<close> and \<open>backoff_delays\<close> are the
  warnings and the delays that follow \<open>n\<close> failed attempts in a row, the first of
  them attempt number \<open>a\<close>, under the retry count \<open>r\<close>.
\<close>

definition probe :: "outcome \<Rightarrow> net" where
  "probe out = \<lparr>outcomes = (\<lambda>k. out), sent = [], client_console = [], slept = []\<rparr>"






text \<open>
  For \<open>waitForVault\<close>: a health request fails when its promise is rejected;
  \<open>health_wait_lines\<close> and \<open>health_wait_delays\<close> are the console lines and the
  delays of \<open>n\<close> failed health requests in a row, the first with loop index \<open>i\<close>.
\<close>

definition health_fails :: "outcome \<Rightarrow> bool" where
  "health_fails out = (case fst (makeHealthRequest (probe out)) of Inl e \<Rightarrow> True | Inr u \<Rightarrow> False)"

fun health_wait_lines :: "nat \<Rightarrow> nat \<Rightarrow> nat \<Rightarrow> client_log list" where
  "health_wait_lines i maxRetries 0 = []"
| "health_wait_lines i maxRetries (Suc n) =
     WaitingForVaultService (i + 1) maxRetries (waitTime i) #
     health_wait_lines (i + 1) maxRetries n"

fun health_wait_delays :: "nat \<Rightarrow> nat \<Rightarrow> rat list" where
  "health_wait_delays i 0 = []"
| "health_wait_delays i (Suc n) = waitTime i # health_wait_delays (i + 1) n"

section \<open>Example worlds\<close>

text \<open>
  Concrete surroundings on which the theorems below are exercised: a store that is
  reachable and empty, with fixed sources of random bytes, random indices and
  timestamps, and the same store out of reach.
\<close>

definition quiet_world :: world where
  "quiet_world =
     \<lparr>docs = Map.empty,
      policies = [],
      trace = [],
      fault = (\<lambda>k. None),
      health_report =
        JObj [(''initialized'', JBool True), (''sealed'', JBool False),
              (''standby'', JBool False), (''version'', JStr ''1.15.0'')],
      minted = (\<lambda>k. ''hvs.'' @ show_nat k),
      random_byte = (\<lambda>k. of_nat k),
      math_random = (\<lambda>k. 7 * k),
      date = (\<lambda>k. ''2024-01-01T00:00:00.'' @ show_nat k @ ''Z''),
      draws = 0,
      penv = Map.empty,
      console = [],
      sleeps = [],
      isInitialized = False\<rparr>"

definition unreachable_world :: world where
  "unreachable_world = quiet_world\<lparr>fault := (\<lambda>k. Some ''connect ECONNREFUSED'')\<rparr>"

definition database_doc :: document where
  "database_doc =
     map_of [(''host'', ''database-service''), (''port'', ''3306''), (''username'', ''user''),
             (''password'', ''pw''), (''shared_database'', ''transcendence'')]"

definition database_world :: world where
  "database_world =
     quiet_world\<lparr>docs := [''secret/data/transcendence/database'' \<mapsto> database_doc]\<rparr>"

text \<open>
  The signing-key document of the rotation scenario, and one that has been rotated
  before and whose secret is the text the example source of random bytes yields next.
\<close>

definition scenario_world :: world where
  "scenario_world =
     quiet_world\<lparr>docs := [''secret/data/transcendence/jwt'' \<mapsto>
       map_of [(''secret'', ''s1''), (''algorithm'', ''HS256'')]]\<rparr>"

definition next_key :: string where
  "next_key =
     ''000102030405060708090a0b0c0d0e0f'' @ ''101112131415161718191a1b1c1d1e1f'' @
     ''202122232425262728292a2b2c2d2e2f'' @ ''303132333435363738393a3b3c3d3e3f''"

definition rotated_world :: world where
  "rotated_world =
     quiet_world\<lparr>docs := [''secret/data/transcendence/jwt'' \<mapsto>
       map_of [(''secret'', next_key), (''algorithm'', ''HS256''),
               (''rotated_at'', ''2023-12-31T00:00:00.000Z''), (''previous_secret'', ''s0'')]]\<rparr>"

text \<open>
  A store that an earlier start-up has seeded, every secret path holding a document,
  and the same store with one transient failure: the 19th call made to it (the read
  of the signing-key path during the second start-up from now) is refused.
\<close>

definition seeded_world :: world where
  "seeded_world =
     quiet_world\<lparr>docs := (\<lambda>p. if p \<in> set secret_paths
       then Some (map_of [(''secret'', ''s1''), (''algorithm'', ''HS256'')]) else None)\<rparr>"

definition glitch_world :: world where
  "glitch_world =
     seeded_world\<lparr>fault := (\<lambda>k. if k = 18 then Some ''read ETIMEDOUT'' else None)\<rparr>"


text \<open>
  A client built with the default settings, a gateway that refuses every connection,
  and one that answers the first request with status 404, the second with a refusal
  in a well-formed body, and every later one with a secret.
\<close>

definition default_client :: client where
  "default_client =
     VaultClient \<lparr>cfg_host = None, cfg_port = None, cfg_serviceName = ''auth-service'',
                  cfg_token = None, cfg_timeout = None, cfg_retryCount = None\<rparr>"

definition dead_net :: net where
  "dead_net =
     \<lparr>outcomes = (\<lambda>k. RequestError (''connect ECONNREFUSED #'' @ show_nat k)),
      sent = [], client_console = [], slept = []\<rparr>"

definition slow_net :: net where
  \<open>slow_net =
     \<lparr>outcomes = (\<lambda>k.
        if k = 0 then
          Answered 404 ''Not Found'' ''{"success":false,"error":"Status 404"}''
            (Some (JObj [(''success'', JBool False), (''error'', JStr ''Status 404'')]))
        else if k = 1 then
          Answered 200 ''OK'' ''{"success":false,"error":"sealed"}''
            (Some (JObj [(''success'', JBool False), (''error'', JStr ''sealed'')]))
        else
          Answered 200 ''OK'' ''{"success":true,"data":{"secret":"s3cr3t"}}''
            (Some (JObj [(''success'', JBool True),
                         (''data'', JObj [(''secret'', JStr ''s3cr3t'')])]))),
      sent = [], client_console = [], slept = []\<rparr>\<close>




text \<open>
  The gateway in front of the store that holds the database document, as a client
  sees it: the answer to a request for the database configuration is the response
  of the route, with the text that \<open>JSON.stringify\<close> gives for its body.
\<close>

definition config_text :: string where
  \<open>config_text =
     ''{"success":true,"data":{"host":"database-service","port":3306,'' @
     ''"username":"user","password":"pw","database":"transcendence"}}''\<close>

definition config_net :: net where
  "config_net =
     \<lparr>outcomes = (\<lambda>k.
        Answered (status (fst (get_database_config database_world))) ''OK'' config_text
          (Some (body (fst (get_database_config database_world))))),
      sent = [], client_console = [], slept = []\<rparr>"

section \<open>Random material\<close>

lemma hex_byte_length: "length (hex_byte b) = 2"
  by (simp add: hex_byte_def)

lemma length_concat_hex: "length (concat (map (\<lambda>x. hex_byte (f x)) xs)) = 2 * length xs"
  by (induction xs) (simp_all add: hex_byte_length)

lemma generateSecureKey_eq:
  "generateSecureKey n w =
     (concat (map hex_byte (map (random_byte w) [draws w ..< draws w + n])), w\<lparr>draws := draws w + n\<rparr>)"
  by (simp add: generateSecureKey_def randomBytes_def)

lemma generateSecureKey_length: "length (fst (generateSecureKey n w)) = 2 * n"
  by (simp add: generateSecureKey_eq length_concat_hex comp_def)

lemma generateSecurePassword_eq:
  "generateSecurePassword n w =
     (map (\<lambda>k. charset ! (math_random w k mod length charset)) [draws w ..< draws w + n],
      w\<lparr>draws := draws w + n\<rparr>)"
  by (simp add: generateSecurePassword_def)

text \<open>The first index at which a property of an initial segment of the naturals fails.\<close>

lemma first_success:
  "\<not> (\<forall>j<n. P j) \<Longrightarrow> \<exists>j<n. \<not> P j \<and> (\<forall>k<j. P k)" for P :: "nat \<Rightarrow> bool"
proof -
  assume "\<not> (\<forall>j<n. P j)"
  then obtain j where j: "j < n" "\<not> P j" by blast
  define l where "l = (LEAST j. \<not> P j)"
  have 1: "\<not> P l" unfolding l_def using j(2) by (rule LeastI)
  have "l \<le> j" unfolding l_def using j(2) by (rule Least_le)
  with j(1) have 2: "l < n" by simp
  have 3: "\<forall>k<l. P k" unfolding l_def using not_less_Least by blast
  from 1 2 3 show ?thesis by blast
qed

section \<open>Rotation of the signing key\<close>

lemma rotateJWTSecret_Inr:
  assumes "rotateJWTSecret w = (Inr s, w')"
  shows "\<exists>d. docs w ''secret/data/transcendence/jwt'' = Some d \<and>
           s = fst (generateSecureKey 64 w) \<and>
           docs w' = (docs w)(''secret/data/transcendence/jwt'' \<mapsto>
                        rotated_document d s (date w (draws w + 64))) \<and>
           fault w' = fault w \<and> random_byte w' = random_byte w \<and> date w' = date w \<and>
           draws w' = draws w + 65 \<and> length (trace w') = length (trace w) + 2"
  using assms
  by (auto simp: rotateJWTSecret_def getSecret_def updateSecret_def vault_read_def vault_write_def
      generateSecureKey_eq toISOString_now_def record_call_def console_log_def
      split: option.splits prod.splits sum.splits)

lemma rotateJWTSecret_succeeds:
  assumes "fault w (length (trace w)) = None" "fault w (Suc (length (trace w))) = None"
    and "docs w ''secret/data/transcendence/jwt'' = Some d"
  shows "\<exists>s w'. rotateJWTSecret w = (Inr s, w')"
  using assms
  by (simp add: rotateJWTSecret_def getSecret_def updateSecret_def vault_read_def vault_write_def
      generateSecureKey_eq toISOString_now_def record_call_def console_log_def)

lemma rotated_document_fields:
  "rotated_document d s t ''secret'' = Some s"
  "rotated_document d s t ''rotated_at'' = Some t"
  "rotated_document d s t ''previous_secret'' = d ''secret''"
  "k \<notin> {''secret'', ''rotated_at'', ''previous_secret''} \<Longrightarrow> rotated_document d s t k = d k"
  by (simp_all add: rotated_document_def)

text \<open>
  Claim C1, as the code has it. Whenever \<open>rotateJWTSecret\<close> returns, the store held a
  signing-key document \<open>d\<close> and now holds a document \<open>d'\<close> in its place such that:
  the new \<open>secret\<close> is the value returned, the lower-case hexadecimal text of the 64
  random bytes drawn for it (128 characters); \<open>rotated_at\<close> is the timestamp read;
  \<open>previous_secret\<close> is the old \<open>secret\<close> of \<open>d\<close>; every field of \<open>d\<close> other than
  \<open>secret\<close>, \<open>rotated_at\<close> and \<open>previous_secret\<close> is unchanged; and no other path of
  the store changes. The rotation does return when its two calls reach the store and
  the document exists. (A \<open>rotated_at\<close> or \<open>previous_secret\<close> that \<open>d\<close> already had is
  replaced, and nothing compares the new secret with the old one.)
\<close>

theorem rotateJWTSecret_spec:
  "(\<forall>newSecret w'. rotateJWTSecret w = (Inr newSecret, w') \<longrightarrow>
      (\<exists>d d'. docs w ''secret/data/transcendence/jwt'' = Some d \<and>
         docs w' ''secret/data/transcendence/jwt'' = Some d' \<and>
         d' ''secret'' = Some newSecret \<and>
         newSecret = concat (map hex_byte (map (random_byte w) [draws w ..< draws w + 64])) \<and>
         length newSecret = 128 \<and>
         d' ''rotated_at'' = Some (date w (draws w + 64)) \<and>
         d' ''previous_secret'' = d ''secret'' \<and>
         (\<forall>k. k \<notin> {''secret'', ''rotated_at'', ''previous_secret''} \<longrightarrow> d' k = d k) \<and>
         (\<forall>p. p \<noteq> ''secret/data/transcendence/jwt'' \<longrightarrow> docs w' p = docs w p))) \<and>
   (fault w (length (trace w)) = None \<and> fault w (Suc (length (trace w))) = None \<and>
    docs w ''secret/data/transcendence/jwt'' \<noteq> None \<longrightarrow>
      (\<exists>newSecret w'. rotateJWTSecret w = (Inr newSecret, w')))"
proof (intro conjI allI impI)
  fix newSecret w'
  assume r: "rotateJWTSecret w = (Inr newSecret, w')"
  from rotateJWTSecret_Inr [OF r] obtain d where
    d: "docs w ''secret/data/transcendence/jwt'' = Some d"
    and s: "newSecret = fst (generateSecureKey 64 w)"
    and docs': "docs w' = (docs w)(''secret/data/transcendence/jwt'' \<mapsto>
                        rotated_document d newSecret (date w (draws w + 64)))"
    by blast
  let ?d' = "rotated_document d newSecret (date w (draws w + 64))"
  have len: "length newSecret = 128"
    using generateSecureKey_length [of 64 w] s by simp
  have key: "newSecret = concat (map hex_byte (map (random_byte w) [draws w ..< draws w + 64]))"
    using s by (simp add: generateSecureKey_eq)
  show "\<exists>d d'. docs w ''secret/data/transcendence/jwt'' = Some d \<and>
         docs w' ''secret/data/transcendence/jwt'' = Some d' \<and>
         d' ''secret'' = Some newSecret \<and>
         newSecret = concat (map hex_byte (map (random_byte w) [draws w ..< draws w + 64])) \<and>
         length newSecret = 128 \<and>
         d' ''rotated_at'' = Some (date w (draws w + 64)) \<and>
         d' ''previous_secret'' = d ''secret'' \<and>
         (\<forall>k. k \<notin> {''secret'', ''rotated_at'', ''previous_secret''} \<longrightarrow> d' k = d k) \<and>
         (\<forall>p. p \<noteq> ''secret/data/transcendence/jwt'' \<longrightarrow> docs w' p = docs w p)"
    using d docs' len key
    by (intro exI [of _ d] exI [of _ ?d']) (simp add: rotated_document_fields)
next
  assume "fault w (length (trace w)) = None \<and> fault w (Suc (length (trace w))) = None \<and>
    docs w ''secret/data/transcendence/jwt'' \<noteq> None"
  then show "\<exists>newSecret w'. rotateJWTSecret w = (Inr newSecret, w')"
    using rotateJWTSecret_succeeds [of w] by auto
qed

lemma next_key_drawn:
  "concat (map hex_byte (map (\<lambda>k. of_nat k) [0 ..< 64])) = next_key"
  by code_simp

text \<open>
  The scenario of the specification: the document \<open>{secret: "s1", algorithm: "HS256"}\<close>
  is rotated once.
\<close>

theorem rotateJWTSecret_spec_witness:
  "(case rotateJWTSecret scenario_world of
      (Inr newSecret, w') \<Rightarrow>
        (case docs w' ''secret/data/transcendence/jwt'' of
           Some d' \<Rightarrow> d' ''secret'' = Some newSecret \<and> d' ''secret'' \<noteq> Some ''s1'' \<and>
                      d' ''previous_secret'' = Some ''s1'' \<and> d' ''algorithm'' = Some ''HS256'' \<and>
                      d' ''rotated_at'' = Some ''2024-01-01T00:00:00.64Z''
         | None \<Rightarrow> False)
    | (Inl error, w') \<Rightarrow> False)"
proof -
  have pre: "fault scenario_world (length (trace scenario_world)) = None \<and>
     fault scenario_world (Suc (length (trace scenario_world))) = None \<and>
     docs scenario_world ''secret/data/transcendence/jwt'' \<noteq> None"
    by (simp add: scenario_world_def quiet_world_def)
  from rotateJWTSecret_spec [of scenario_world, THEN conjunct2, THEN mp, OF pre]
  obtain newSecret w' where r: "rotateJWTSecret scenario_world = (Inr newSecret, w')"
    by (elim exE)
  from rotateJWTSecret_spec [of scenario_world, THEN conjunct1, THEN spec, THEN spec, THEN mp, OF r]
  obtain d d' where
    d: "docs scenario_world ''secret/data/transcendence/jwt'' = Some d"
    and d': "docs w' ''secret/data/transcendence/jwt'' = Some d'"
    and s: "d' ''secret'' = Some newSecret" "length newSecret = 128"
    and t: "d' ''rotated_at'' = Some (date scenario_world (draws scenario_world + 64))"
    and p: "d' ''previous_secret'' = d ''secret''"
    and o: "\<forall>k. k \<notin> {''secret'', ''rotated_at'', ''previous_secret''} \<longrightarrow> d' k = d k"
    by (elim exE conjE)
  from d have dd: "d = map_of [(''secret'', ''s1''), (''algorithm'', ''HS256'')]"
    by (simp add: scenario_world_def quiet_world_def)
  from s have ne: "d' ''secret'' \<noteq> Some ''s1''" by auto
  from o have alg: "d' ''algorithm'' = d ''algorithm''" by simp
  from t have t': "d' ''rotated_at'' = Some ''2024-01-01T00:00:00.64Z''"
    by (simp add: scenario_world_def quiet_world_def)
  show ?thesis
    using r d' s ne p alg t' dd by simp
qed

text \<open>
  The claim as the specification words it fails on a document that was rotated
  before: its \<open>previous_secret\<close> and \<open>rotated_at\<close> are fields of \<open>d\<close> that do not
  stay unchanged, and when the bytes drawn spell the current secret the new secret
  is equal to the old one.
\<close>

theorem rotateJWTSecret_overwrites:
  "(case rotateJWTSecret rotated_world of
      (Inr newSecret, w') \<Rightarrow>
        (case (docs rotated_world ''secret/data/transcendence/jwt'',
               docs w' ''secret/data/transcendence/jwt'') of
           (Some d, Some d') \<Rightarrow>
              d ''previous_secret'' = Some ''s0'' \<and> d' ''previous_secret'' = Some next_key \<and>
              d' ''previous_secret'' \<noteq> d ''previous_secret'' \<and>
              d' ''rotated_at'' \<noteq> d ''rotated_at'' \<and>
              d' ''secret'' = d ''secret''
         | _ \<Rightarrow> False)
    | (Inl error, w') \<Rightarrow> False)"
proof -
  have k: "fst (generateSecureKey 64 rotated_world) = next_key"
    using next_key_drawn by (simp add: generateSecureKey_eq rotated_world_def quiet_world_def)
  have s0: "next_key \<noteq> ''s0''"
    by (simp add: next_key_def)
  let ?d = "map_of [(''secret'', next_key), (''algorithm'', ''HS256''),
               (''rotated_at'', ''2023-12-31T00:00:00.000Z''), (''previous_secret'', ''s0'')]"
  have d: "docs rotated_world ''secret/data/transcendence/jwt'' = Some ?d"
    by (simp add: rotated_world_def quiet_world_def)
  have "fault rotated_world (length (trace rotated_world)) = None"
    "fault rotated_world (Suc (length (trace rotated_world))) = None"
    by (simp_all add: rotated_world_def quiet_world_def)
  from rotateJWTSecret_succeeds [OF this d]
  obtain s w' where r: "rotateJWTSecret rotated_world = (Inr s, w')" by blast
  from rotateJWTSecret_Inr [OF r] d k
  have s: "s = next_key"
    and docs': "docs w' = (docs rotated_world)(''secret/data/transcendence/jwt'' \<mapsto>
                  rotated_document ?d s (date rotated_world (draws rotated_world + 64)))"
    by auto
  have t: "date rotated_world (draws rotated_world + 64) = ''2024-01-01T00:00:00.64Z''"
    by (simp add: rotated_world_def quiet_world_def)
  have d': "docs w' ''secret/data/transcendence/jwt'' =
      Some (rotated_document ?d next_key ''2024-01-01T00:00:00.64Z'')"
    by (simp add: docs' s t)
  show ?thesis
    using s0 by (simp add: r d d' rotated_document_fields)
qed

subsection \<open>Sequences of rotations\<close>

lemma rotate_times_Suc_Inr:
  "rotate_times (Suc n) w = Inr w' \<Longrightarrow>
   \<exists>w1 s. rotate_times n w = Inr w1 \<and> rotateJWTSecret w1 = (Inr s, w')"
  by (auto split: sum.splits prod.splits)

lemma rotate_times_needs_document:
  "rotate_times n w = Inr w' \<Longrightarrow> 1 \<le> n \<Longrightarrow>
   \<exists>d0. docs w ''secret/data/transcendence/jwt'' = Some d0"
proof (induction n arbitrary: w')
  case 0
  then show ?case by simp
next
  case (Suc n)
  from rotate_times_Suc_Inr [OF Suc.prems(1)] obtain w1 s
    where w1: "rotate_times n w = Inr w1" and r: "rotateJWTSecret w1 = (Inr s, w')"
    by blast
  show ?case
  proof (cases n)
    case 0
    with w1 have "w1 = w" by simp
    with rotateJWTSecret_Inr [OF r] show ?thesis by blast
  next
    case (Suc m)
    with Suc.IH [OF w1] show ?thesis by simp
  qed
qed

lemma rotate_times_invariant:
  "rotate_times n w = Inr w' \<Longrightarrow> 1 \<le> n \<Longrightarrow>
   docs w ''secret/data/transcendence/jwt'' = Some d0 \<Longrightarrow>
   \<exists>d. docs w' ''secret/data/transcendence/jwt'' = Some d \<and>
       d ''secret'' \<noteq> None \<and> d ''rotated_at'' \<noteq> None \<and>
       (\<forall>k. k \<notin> {''secret'', ''rotated_at'', ''previous_secret''} \<longrightarrow> d k = d0 k)"
proof (induction n arbitrary: w')
  case 0
  then show ?case by simp
next
  case (Suc n)
  from rotate_times_Suc_Inr [OF Suc.prems(1)] obtain w1 s
    where w1: "rotate_times n w = Inr w1" and r: "rotateJWTSecret w1 = (Inr s, w')"
    by blast
  from rotateJWTSecret_Inr [OF r] obtain d1 t where
    d1: "docs w1 ''secret/data/transcendence/jwt'' = Some d1"
    and d': "docs w' ''secret/data/transcendence/jwt'' = Some (rotated_document d1 s t)"
    by auto
  have "\<forall>k. k \<notin> {''secret'', ''rotated_at'', ''previous_secret''} \<longrightarrow> d1 k = d0 k"
  proof (cases n)
    case 0
    with w1 d1 Suc.prems(3) show ?thesis by simp
  next
    case (Suc m)
    with Suc.IH [OF w1 _ Suc.prems(3)] d1 show ?thesis by simp
  qed
  with d' show ?case
    by (simp add: rotated_document_fields)
qed

lemma rotate_times_succeeds:
  "\<forall>k. fault w k = None \<Longrightarrow> docs w ''secret/data/transcendence/jwt'' \<noteq> None \<Longrightarrow>
   \<exists>w'. rotate_times n w = Inr w' \<and> (\<forall>k. fault w' k = None) \<and>
        docs w' ''secret/data/transcendence/jwt'' \<noteq> None"
proof (induction n)
  case 0
  then show ?case by simp
next
  case (Suc n)
  then obtain w1 where w1: "rotate_times n w = Inr w1" "\<forall>k. fault w1 k = None"
    and "docs w1 ''secret/data/transcendence/jwt'' \<noteq> None"
    by blast
  then obtain d1 where d1: "docs w1 ''secret/data/transcendence/jwt'' = Some d1" by blast
  from w1(2) have "fault w1 (length (trace w1)) = None"
    "fault w1 (Suc (length (trace w1))) = None" by simp_all
  from rotateJWTSecret_succeeds [OF this d1] obtain s w' where
    r: "rotateJWTSecret w1 = (Inr s, w')" by blast
  from rotateJWTSecret_Inr [OF r] w1(2) have "\<forall>k. fault w' k = None"
    "docs w' ''secret/data/transcendence/jwt'' \<noteq> None" by auto
  with w1(1) r show ?case by simp
qed

text \<open>
  Claim C3. After \<open>n\<close> rotations in a row, \<open>n\<close> at least 2, the signing-key document
  holds exactly one previous value: its \<open>previous_secret\<close> is the \<open>secret\<close> that the
  document held just before the last rotation (a value that exists), and no older
  value is kept, since apart from \<open>secret\<close>, \<open>rotated_at\<close> and \<open>previous_secret\<close>
  the document has the fields it had before the first rotation, unchanged, and no
  others. The rotations are all carried out when every call reaches the store and
  the document exists.
\<close>

theorem rotation_keeps_one_previous:
  "(2 \<le> n \<and> rotate_times n w = Inr w' \<longrightarrow>
      (\<exists>w1 d0 d1 d'. rotate_times (n - 1) w = Inr w1 \<and>
         docs w ''secret/data/transcendence/jwt'' = Some d0 \<and>
         docs w1 ''secret/data/transcendence/jwt'' = Some d1 \<and>
         docs w' ''secret/data/transcendence/jwt'' = Some d' \<and>
         d1 ''secret'' \<noteq> None \<and>
         d' ''previous_secret'' = d1 ''secret'' \<and>
         dom d' = dom d0 \<union> {''secret'', ''rotated_at'', ''previous_secret''} \<and>
         (\<forall>k. k \<notin> {''secret'', ''rotated_at'', ''previous_secret''} \<longrightarrow> d' k = d0 k))) \<and>
   ((\<forall>k. fault w k = None) \<and> docs w ''secret/data/transcendence/jwt'' \<noteq> None \<longrightarrow>
      (\<exists>w'. rotate_times n w = Inr w'))"
proof (intro conjI impI)
  assume a: "2 \<le> n \<and> rotate_times n w = Inr w'"
  then have "n = Suc (Suc (n - 2))" by arith
  then obtain m where n: "n = Suc (Suc m)" by blast
  from a n rotate_times_Suc_Inr [of "Suc m" w w'] obtain w1 s
    where w1: "rotate_times (Suc m) w = Inr w1" and r: "rotateJWTSecret w1 = (Inr s, w')"
    by blast
  from rotate_times_needs_document [OF w1] obtain d0
    where d0: "docs w ''secret/data/transcendence/jwt'' = Some d0" by auto
  from rotate_times_invariant [OF w1 _ d0] obtain d1 where
    d1: "docs w1 ''secret/data/transcendence/jwt'' = Some d1"
    and sec: "d1 ''secret'' \<noteq> None" and rot: "d1 ''rotated_at'' \<noteq> None"
    and same: "\<forall>k. k \<notin> {''secret'', ''rotated_at'', ''previous_secret''} \<longrightarrow> d1 k = d0 k"
    by auto
  from rotateJWTSecret_Inr [OF r] d1 obtain t where
    d': "docs w' ''secret/data/transcendence/jwt'' = Some (rotated_document d1 s t)"
    by auto
  let ?d' = "rotated_document d1 s t"
  have prev: "?d' ''previous_secret'' = d1 ''secret''"
    by (simp add: rotated_document_fields)
  have other: "\<forall>k. k \<notin> {''secret'', ''rotated_at'', ''previous_secret''} \<longrightarrow> ?d' k = d0 k"
    using same by (simp add: rotated_document_fields)
  have dom: "dom ?d' = dom d0 \<union> {''secret'', ''rotated_at'', ''previous_secret''}"
  proof (rule set_eqI)
    fix k
    show "k \<in> dom ?d' \<longleftrightarrow> k \<in> dom d0 \<union> {''secret'', ''rotated_at'', ''previous_secret''}"
    proof (cases "k \<in> {''secret'', ''rotated_at'', ''previous_secret''}")
      case True
      then consider "k = ''secret''" | "k = ''rotated_at''" | "k = ''previous_secret''"
        by blast
      then show ?thesis
      proof cases
        case 1
        then show ?thesis by (simp add: domIff rotated_document_fields)
      next
        case 2
        then show ?thesis by (simp add: domIff rotated_document_fields)
      next
        case 3
        with sec show ?thesis by (simp add: domIff rotated_document_fields)
      qed
    next
      case False
      with other have "?d' k = d0 k" by blast
      with False show ?thesis by (auto simp: dom_def)
    qed
  qed
  from n w1 d0 d1 d' sec prev dom other
  show "\<exists>w1 d0 d1 d'. rotate_times (n - 1) w = Inr w1 \<and>
         docs w ''secret/data/transcendence/jwt'' = Some d0 \<and>
         docs w1 ''secret/data/transcendence/jwt'' = Some d1 \<and>
         docs w' ''secret/data/transcendence/jwt'' = Some d' \<and>
         d1 ''secret'' \<noteq> None \<and>
         d' ''previous_secret'' = d1 ''secret'' \<and>
         dom d' = dom d0 \<union> {''secret'', ''rotated_at'', ''previous_secret''} \<and>
         (\<forall>k. k \<notin> {''secret'', ''rotated_at'', ''previous_secret''} \<longrightarrow> d' k = d0 k)"
    by (intro exI [of _ w1] exI [of _ d0] exI [of _ d1] exI [of _ ?d']) simp
next
  assume "(\<forall>k. fault w k = None) \<and> docs w ''secret/data/transcendence/jwt'' \<noteq> None"
  with rotate_times_succeeds [of w n] show "\<exists>w'. rotate_times n w = Inr w'" by blast
qed


text \<open>
  Two rotations of the scenario's document: the value \<open>s1\<close> is gone, and
  \<open>previous_secret\<close> is the key that the first rotation generated.
\<close>

theorem rotation_keeps_one_previous_witness:
  "(case rotate_times 2 scenario_world of
      Inr w' \<Rightarrow>
        (case docs w' ''secret/data/transcendence/jwt'' of
           Some d' \<Rightarrow>
             d' ''previous_secret'' = Some next_key \<and>
             d' ''previous_secret'' \<noteq> Some ''s1'' \<and>
             d' ''algorithm'' = Some ''HS256'' \<and>
             dom d' = {''secret'', ''algorithm'', ''rotated_at'', ''previous_secret''}
         | None \<Rightarrow> False)
    | Inl error \<Rightarrow> False)"
proof -
  have pre: "(\<forall>k. fault scenario_world k = None) \<and>
      docs scenario_world ''secret/data/transcendence/jwt'' \<noteq> None"
    by (simp add: scenario_world_def quiet_world_def)
  from rotation_keeps_one_previous [of 2 scenario_world, THEN conjunct2, THEN mp, OF pre]
  obtain w' where r: "rotate_times 2 scenario_world = Inr w'" by (elim exE)
  then have two: "2 \<le> (2::nat) \<and> rotate_times 2 scenario_world = Inr w'" by simp
  from rotation_keeps_one_previous [of 2 scenario_world w', THEN conjunct1, THEN mp, OF two]
  obtain w1 d0 d1 d' where
    w1: "rotate_times (2 - 1) scenario_world = Inr w1"
    and d0: "docs scenario_world ''secret/data/transcendence/jwt'' = Some d0"
    and d1: "docs w1 ''secret/data/transcendence/jwt'' = Some d1"
    and d': "docs w' ''secret/data/transcendence/jwt'' = Some d'"
    and prev: "d' ''previous_secret'' = d1 ''secret''"
    and dom: "dom d' = dom d0 \<union> {''secret'', ''rotated_at'', ''previous_secret''}"
    and other: "\<forall>k. k \<notin> {''secret'', ''rotated_at'', ''previous_secret''} \<longrightarrow> d' k = d0 k"
    by (elim exE conjE)
  from d0 have d0_eq: "d0 = map_of [(''secret'', ''s1''), (''algorithm'', ''HS256'')]"
    by (simp add: scenario_world_def quiet_world_def)
  have "rotate_times (Suc 0) scenario_world = Inr w1"
    using w1 by simp
  from rotate_times_Suc_Inr [OF this] obtain s where
    first: "rotateJWTSecret scenario_world = (Inr s, w1)" by auto
  have key: "fst (generateSecureKey 64 scenario_world) = next_key"
    using next_key_drawn by (simp add: generateSecureKey_eq scenario_world_def quiet_world_def)
  from rotateJWTSecret_Inr [OF first] d0 d1 key have "d1 ''secret'' = Some next_key"
    by (auto simp: rotated_document_fields)
  with prev have p: "d' ''previous_secret'' = Some next_key" by simp
  have ne: "next_key \<noteq> ''s1''" by (simp add: next_key_def)
  from other d0_eq have alg: "d' ''algorithm'' = Some ''HS256''" by simp
  from dom d0_eq have dm: "dom d' = {''secret'', ''algorithm'', ''rotated_at'', ''previous_secret''}"
    by auto
  show ?thesis
    using p ne alg dm by (simp add: r d')
qed

section \<open>Start-up of the gateway\<close>

subsection \<open>Waiting for the store\<close>

declare waitForVault_loop.simps [simp del]

lemma vault_health_fails:
  "fault w (length (trace w)) = Some m \<Longrightarrow>
   vault_health w = (Inl (Error m), record_call Health False w)"
  by (simp add: vault_health_def)

lemma vault_health_ok:
  "fault w (length (trace w)) = None \<Longrightarrow>
   vault_health w = (Inr (health_report w), record_call Health True w)"
  by (simp add: vault_health_def)


lemma waitForVault_loop_ready:
  "i + j < m \<Longrightarrow> fault w (length (trace w) + j) = None \<Longrightarrow>
   \<forall>k<j. fault w (length (trace w) + k) \<noteq> None \<Longrightarrow>
   waitForVault_loop i m w =
     (Inr (),
      w\<lparr>trace := trace w @ replicate j (Health, False) @ [(Health, True)],
        console := console w @ waiting_lines i m j @ [VaultIsReady],
        sleeps := sleeps w @ replicate j 2000\<rparr>)"
proof (induction j arbitrary: i w)
  case 0
  then show ?case
    by (simp add: waitForVault_loop.simps [of i m w] vault_health_ok console_log_def record_call_def)
next
  case (Suc j)
  then have lt: "i < m" by simp
  from Suc.prems(3) obtain msg where f: "fault w (length (trace w)) = Some msg"
    by force
  let ?w1 = "sleep 2000 (console_log (WaitingForVault (i + 1) m) (record_call Health False w))"
  have step: "waitForVault_loop i m w = waitForVault_loop (i + 1) m ?w1"
    using lt by (simp add: waitForVault_loop.simps [of i m w] vault_health_fails [OF f])
  have a: "(i + 1) + j < m" using Suc.prems(1) by simp
  have b: "fault ?w1 (length (trace ?w1) + j) = None"
    using Suc.prems(2) by (simp add: sleep_def console_log_def record_call_def)
  have c: "\<forall>k<j. fault ?w1 (length (trace ?w1) + k) \<noteq> None"
    using Suc.prems(3) by (auto simp: sleep_def console_log_def record_call_def)
  show ?case
    unfolding step Suc.IH [OF a b c]
    by (simp add: sleep_def console_log_def record_call_def)
qed








subsection \<open>Installing the policies\<close>

lemma setupPolicies_loop_frame_all:
  "docs (setupPolicies_loop ps w) = docs w \<and>
   fault (setupPolicies_loop ps w) = fault w \<and>
   sleeps (setupPolicies_loop ps w) = sleeps w"
  by (induction ps arbitrary: w)
    (auto simp: vault_addPolicy_def console_log_def record_call_def split: option.splits)

lemma setupPolicies_loop_frame:
  "docs (setupPolicies_loop ps w) = docs w"
  "fault (setupPolicies_loop ps w) = fault w"
  "sleeps (setupPolicies_loop ps w) = sleeps w"
  using setupPolicies_loop_frame_all [of ps w] by simp_all


lemma upsert_keys: "set (map fst (upsert k v ps)) = insert k (set (map fst ps))"
proof (induction ps)
  case Nil
  show ?case by simp
next
  case (Cons a ps)
  obtain k' v' where a: "a = (k', v')" by (cases a)
  show ?case
  proof (cases "k = k'")
    case True
    then show ?thesis by (simp add: a)
  next
    case False
    then show ?thesis using Cons.IH by (simp add: a insert_commute)
  qed
qed

lemma upsert_distinct: "distinct (map fst ps) \<Longrightarrow> distinct (map fst (upsert k v ps))"
proof (induction ps)
  case Nil
  then show ?case by simp
next
  case (Cons a ps)
  obtain k' v' where a: "a = (k', v')" by (cases a)
  from Cons show ?case
    using upsert_keys [of k v ps] by (auto simp: a)
qed

lemma setupPolicies_loop_distinct:
  "distinct (map fst (policies w)) \<Longrightarrow> distinct (map fst (policies (setupPolicies_loop ps w)))"
  by (induction ps arbitrary: w)
    (auto simp: vault_addPolicy_def console_log_def record_call_def upsert_distinct
      split: option.splits)

lemma setupPolicies_loop_reliable:
  "\<forall>k. fault w k = None \<Longrightarrow>
   policies (setupPolicies_loop ps w) = fold (\<lambda>(k, v). upsert k v) ps (policies w)"
  by (induction ps arbitrary: w)
    (auto simp: vault_addPolicy_def console_log_def record_call_def)

lemma setupPolicies_loop_window:
  "\<forall>k<length ps. fault w (length (trace w) + k) = None \<Longrightarrow>
   policies (setupPolicies_loop ps w) = fold (\<lambda>(k, v). upsert k v) ps (policies w)"
proof (induction ps arbitrary: w)
  case Nil
  show ?case by simp
next
  case (Cons a ps)
  obtain name policy where a: "a = (name, policy)" by (cases a)
  from Cons.prems have f: "fault w (length (trace w)) = None" by force
  let ?w1 = "console_log (PolicyCreated name)
      (record_call (AddPolicy name policy) True (w\<lparr>policies := upsert name policy (policies w)\<rparr>))"
  have step: "setupPolicies_loop (a # ps) w = setupPolicies_loop ps ?w1"
    by (simp add: a vault_addPolicy_def f)
  have rest: "\<forall>k<length ps. fault ?w1 (length (trace ?w1) + k) = None"
  proof (intro allI impI)
    fix k assume "k < length ps"
    then have "Suc k < length (a # ps)" by simp
    with Cons.prems have "fault w (length (trace w) + Suc k) = None" by blast
    then show "fault ?w1 (length (trace ?w1) + k) = None"
      by (simp add: console_log_def record_call_def)
  qed
  show ?case
    unfolding step Cons.IH [OF rest]
    by (simp add: a console_log_def record_call_def)
qed

lemma upsert_present: "map_of ps k = Some v \<Longrightarrow> upsert k v ps = ps"
  by (induction ps) (auto split: if_splits)

lemma map_of_upsert: "map_of (upsert k v ps) = (map_of ps)(k \<mapsto> v)"
  by (induction ps) (auto simp: fun_eq_iff)

lemma fold_upsert_present:
  "\<forall>(k, v) \<in> set kvs. map_of ps k = Some v \<Longrightarrow> fold (\<lambda>(k, v). upsert k v) kvs ps = ps"
  by (induction kvs) (auto simp: upsert_present)

lemma fold_upsert_other:
  "k \<notin> fst ` set kvs \<Longrightarrow> map_of (fold (\<lambda>(k, v). upsert k v) kvs ps) k = map_of ps k"
  by (induction kvs arbitrary: ps) (auto simp: map_of_upsert)

lemma fold_upsert_installed:
  "distinct (map fst kvs) \<Longrightarrow> (k, v) \<in> set kvs \<Longrightarrow>
   map_of (fold (\<lambda>(k, v). upsert k v) kvs ps) k = Some v"
proof (induction kvs arbitrary: ps)
  case Nil
  then show ?case by simp
next
  case (Cons a kvs)
  obtain k' v' where a: "a = (k', v')" by (cases a)
  show ?case
  proof (cases "(k, v) = (k', v')")
    case True
    with Cons.prems(1) a have "k \<notin> fst ` set kvs" by auto
    from fold_upsert_other [OF this] True show ?thesis
      by (simp add: a map_of_upsert)
  next
    case False
    with Cons.prems a have "(k, v) \<in> set kvs" "distinct (map fst kvs)" by auto
    from Cons.IH [OF this(2) this(1)] show ?thesis by (simp add: a)
  qed
qed

lemma fold_upsert_idempotent:
  "distinct (map fst kvs) \<Longrightarrow>
   fold (\<lambda>(k, v). upsert k v) kvs (fold (\<lambda>(k, v). upsert k v) kvs ps) =
   fold (\<lambda>(k, v). upsert k v) kvs ps"
  by (rule fold_upsert_present) (auto simp: fold_upsert_installed)

lemma policy_table_distinct: "distinct (map fst policy_table)"
  by (simp add: policy_table_def)

subsection \<open>Seeding the secrets\<close>

lemma generators_draw_only:
  "\<exists>n. snd (generateSecureKey len w) = w\<lparr>draws := n\<rparr>"
  "\<exists>n. snd (generateSecurePassword len w) = w\<lparr>draws := n\<rparr>"
  "\<exists>n. snd (toISOString_now w) = w\<lparr>draws := n\<rparr>"
  by (auto simp: generateSecureKey_def randomBytes_def generateSecurePassword_def toISOString_now_def)

lemma secrets_literal_paths:
  "map fst (secrets_literal env g) = secret_paths"
  by (simp add: secrets_literal_def secret_paths_def)

lemma initial_secrets_paths: "map fst (fst (initial_secrets w)) = secret_paths"
  by (simp add: initial_secrets_def secrets_literal_paths generateSecureKey_eq
      generateSecurePassword_eq toISOString_now_def split: option.splits)

lemma initial_secrets_draws_only: "\<exists>n. snd (initial_secrets w) = w\<lparr>draws := n\<rparr>"
  by (auto simp: initial_secrets_def generateSecureKey_eq
      generateSecurePassword_eq toISOString_now_def split: option.splits)

lemma write_attempts_append:
  "write_attempts (xs @ ys) = write_attempts xs @ write_attempts ys"
  by (induction xs rule: write_attempts.induct) simp_all

lemma seed_step_exists:
  "fault w (length (trace w)) = None \<Longrightarrow> docs w path = Some d \<Longrightarrow>
   storeInitialSecrets_loop ((path, secret) # rest) w =
     storeInitialSecrets_loop rest
       (console_log (SecretAlreadyExists path) (record_call (Read path) True w))"
  by (simp add: vault_read_def)

lemma seed_step_stored:
  "fault w (length (trace w)) \<noteq> None \<or> docs w path = None \<Longrightarrow>
   fault w (Suc (length (trace w))) = None \<Longrightarrow>
   storeInitialSecrets_loop ((path, secret) # rest) w =
     storeInitialSecrets_loop rest
       (console_log (SecretStored path)
          (record_call (Write path secret) True
             ((record_call (Read path) False w)\<lparr>docs := (docs w)(path \<mapsto> secret)\<rparr>)))"
  by (auto simp: vault_read_def vault_write_def record_call_def split: option.splits)

lemma seed_step_failed:
  "fault w (length (trace w)) \<noteq> None \<or> docs w path = None \<Longrightarrow>
   fault w (Suc (length (trace w))) = Some m \<Longrightarrow>
   storeInitialSecrets_loop ((path, secret) # rest) w =
     storeInitialSecrets_loop rest
       (console_log (ErrorHandlingSecret path m)
          (record_call (Write path secret) False (record_call (Read path) False w)))"
  by (auto simp: vault_read_def vault_write_def record_call_def split: option.splits)

lemma seed_step_cases:
  obtains (exists) d where "fault w (length (trace w)) = None" "docs w path = Some d"
  | (stored) "fault w (length (trace w)) \<noteq> None \<or> docs w path = None"
      "fault w (Suc (length (trace w))) = None"
  | (failed) m where "fault w (length (trace w)) \<noteq> None \<or> docs w path = None"
      "fault w (Suc (length (trace w))) = Some m"
  by (cases "fault w (length (trace w))"; cases "docs w path";
      cases "fault w (Suc (length (trace w)))") auto

lemma storeInitialSecrets_loop_frame_all:
  "policies (storeInitialSecrets_loop ss w) = policies w \<and>
   fault (storeInitialSecrets_loop ss w) = fault w \<and>
   sleeps (storeInitialSecrets_loop ss w) = sleeps w"
proof (induction ss arbitrary: w)
  case Nil
  show ?case by simp
next
  case (Cons a ss)
  obtain path secret where a: "a = (path, secret)" by (cases a)
  show ?case
  proof (cases rule: seed_step_cases [of w path])
    case (exists d)
    then show ?thesis
      unfolding a seed_step_exists [OF exists]
      by (simp add: Cons.IH console_log_def record_call_def)
  next
    case stored
    then show ?thesis
      unfolding a seed_step_stored [OF stored]
      by (simp add: Cons.IH console_log_def record_call_def)
  next
    case (failed m)
    then show ?thesis
      unfolding a seed_step_failed [OF failed]
      by (simp add: Cons.IH console_log_def record_call_def)
  qed
qed

lemma storeInitialSecrets_loop_frame:
  "policies (storeInitialSecrets_loop ss w) = policies w"
  "fault (storeInitialSecrets_loop ss w) = fault w"
  "sleeps (storeInitialSecrets_loop ss w) = sleeps w"
  using storeInitialSecrets_loop_frame_all [of ss w] by simp_all


lemma storeInitialSecrets_loop_outside:
  "p \<notin> set (map fst ss) \<Longrightarrow> docs (storeInitialSecrets_loop ss w) p = docs w p"
proof (induction ss arbitrary: w)
  case Nil
  show ?case by simp
next
  case (Cons a ss)
  obtain path secret where a: "a = (path, secret)" by (cases a)
  from Cons.prems a have p: "p \<noteq> path" "p \<notin> set (map fst ss)" by auto
  show ?case
  proof (cases rule: seed_step_cases [of w path])
    case (exists d)
    show ?thesis
      unfolding a seed_step_exists [OF exists]
      by (simp add: Cons.IH [OF p(2)] console_log_def record_call_def)
  next
    case stored
    show ?thesis
      unfolding a seed_step_stored [OF stored]
      using p(1) by (simp add: Cons.IH [OF p(2)] console_log_def record_call_def)
  next
    case (failed m)
    show ?thesis
      unfolding a seed_step_failed [OF failed]
      by (simp add: Cons.IH [OF p(2)] console_log_def record_call_def)
  qed
qed

lemma storeInitialSecrets_loop_reliable:
  "\<forall>k. fault w k = None \<Longrightarrow>
   (\<forall>p d. docs w p = Some d \<longrightarrow> docs (storeInitialSecrets_loop ss w) p = Some d) \<and>
   (\<forall>p \<in> set (map fst ss). docs (storeInitialSecrets_loop ss w) p \<noteq> None) \<and>
   ((\<forall>p \<in> set (map fst ss). docs w p \<noteq> None) \<longrightarrow>
      (\<exists>tr. trace (storeInitialSecrets_loop ss w) = trace w @ tr \<and> write_attempts tr = []))"
proof (induction ss arbitrary: w)
  case Nil
  show ?case by simp
next
  case (Cons a ss)
  obtain path secret where a: "a = (path, secret)" by (cases a)
  from Cons.prems have f: "fault w (length (trace w)) = None"
    "fault w (Suc (length (trace w))) = None" by simp_all
  show ?case
  proof (cases "docs w path")
    case (Some d)
    let ?w1 = "console_log (SecretAlreadyExists path) (record_call (Read path) True w)"
    have rel: "\<forall>k. fault ?w1 k = None"
      using Cons.prems by (simp add: console_log_def record_call_def)
    have d1: "docs ?w1 = docs w" "trace ?w1 = trace w @ [(Read path, True)]"
      by (simp_all add: console_log_def record_call_def)
    from Cons.IH [OF rel] d1 Some show ?thesis
      unfolding a seed_step_exists [OF f(1) Some]
      by (auto simp: write_attempts_append)
  next
    case None
    let ?w1 = "console_log (SecretStored path)
          (record_call (Write path secret) True
             ((record_call (Read path) False w)\<lparr>docs := (docs w)(path \<mapsto> secret)\<rparr>))"
    have rel: "\<forall>k. fault ?w1 k = None"
      using Cons.prems by (simp add: console_log_def record_call_def)
    have d1: "docs ?w1 = (docs w)(path \<mapsto> secret)"
      by (simp add: console_log_def record_call_def)
    have step: "storeInitialSecrets_loop (a # ss) w = storeInitialSecrets_loop ss ?w1"
      unfolding a using None f(2) by (intro seed_step_stored) simp_all
    from Cons.IH [OF rel] have
      keep: "\<forall>p d. docs ?w1 p = Some d \<longrightarrow> docs (storeInitialSecrets_loop ss ?w1) p = Some d"
      and seeded: "\<forall>p \<in> set (map fst ss). docs (storeInitialSecrets_loop ss ?w1) p \<noteq> None"
      by blast+
    have 1: "\<forall>p d. docs w p = Some d \<longrightarrow> docs (storeInitialSecrets_loop (a # ss) w) p = Some d"
    proof (intro allI impI)
      fix p d
      assume pd: "docs w p = Some d"
      with None have "p \<noteq> path" by auto
      with pd d1 have "docs ?w1 p = Some d" by simp
      with keep show "docs (storeInitialSecrets_loop (a # ss) w) p = Some d"
        unfolding step by blast
    qed
    have 2: "\<forall>p \<in> set (map fst (a # ss)). docs (storeInitialSecrets_loop (a # ss) w) p \<noteq> None"
    proof
      fix p
      assume "p \<in> set (map fst (a # ss))"
      then consider "p = path" | "p \<in> set (map fst ss)" by (auto simp: a)
      then show "docs (storeInitialSecrets_loop (a # ss) w) p \<noteq> None"
      proof cases
        case 1
        with d1 have "docs ?w1 p = Some secret" by simp
        with keep show ?thesis unfolding step by force
      next
        case 2
        with seeded show ?thesis unfolding step by blast
      qed
    qed
    have 3: "\<not> (\<forall>p \<in> set (map fst (a # ss)). docs w p \<noteq> None)"
      using None by (simp add: a)
    from 1 2 3 show ?thesis by blast
  qed
qed

lemma setupPolicies_loop_no_writes:
  "\<exists>tr. trace (setupPolicies_loop ps w) = trace w @ tr \<and> length tr = length ps \<and>
     write_attempts tr = []"
proof (induction ps arbitrary: w)
  case Nil
  show ?case by simp
next
  case (Cons a ps)
  obtain name policy where a: "a = (name, policy)" by (cases a)
  obtain r w1 where v: "vault_addPolicy name policy w = (r, w1)"
    by (cases "vault_addPolicy name policy w")
  then have t1: "\<exists>ok. trace w1 = trace w @ [(AddPolicy name policy, ok)]"
    by (auto simp: vault_addPolicy_def record_call_def split: option.splits)
  then obtain ok where t1: "trace w1 = trace w @ [(AddPolicy name policy, ok)]" by blast
  obtain l where step: "setupPolicies_loop (a # ps) w = setupPolicies_loop ps (console_log l w1)"
    using v by (cases r) (auto simp: a)
  from Cons.IH [of "console_log l w1"] obtain tr where
    "trace (setupPolicies_loop ps (console_log l w1)) = trace (console_log l w1) @ tr"
    "length tr = length ps" "write_attempts tr = []" by blast
  then show ?case
    unfolding step using t1
    by (intro exI [of _ "(AddPolicy name policy, ok) # tr"]) (simp add: console_log_def)
qed

lemma secrets_literal_jwt:
  "(''secret/data/transcendence/jwt'', doc) \<in> set (secrets_literal env g) \<Longrightarrow>
   doc ''secret'' = Some (gen_jwt_secret g)"
  by (auto simp: secrets_literal_def)

lemma initial_secrets_jwt:
  "(''secret/data/transcendence/jwt'', doc) \<in> set (fst (initial_secrets w)) \<Longrightarrow>
   \<exists>s. doc ''secret'' = Some s \<and> length s = 128"
proof -
  assume m: "(''secret/data/transcendence/jwt'', doc) \<in> set (fst (initial_secrets w))"
  define c where "c = fst (generateSecureKey 64
      (snd (generateSecurePassword 32 (snd (generateSecurePassword 24 w)))))"
  have "\<exists>env g. fst (initial_secrets w) = secrets_literal env g \<and> gen_jwt_secret g = c"
    unfolding c_def
    apply (auto simp: initial_secrets_def split: prod.splits)
    apply (intro exI conjI)
     apply (rule refl)
    apply simp
    done
  then obtain env g where
    "fst (initial_secrets w) = secrets_literal env g" "gen_jwt_secret g = c"
    by blast
  with m have "doc ''secret'' = Some c"
    using secrets_literal_jwt [of doc env g] by simp
  moreover have "length c = 128"
    unfolding c_def using generateSecureKey_length [of 64] by simp
  ultimately show ?thesis by simp
qed

subsection \<open>The whole start-up\<close>




lemma storeInitialSecrets_loop_present:
  "\<forall>p \<in> set (map fst ss). docs w p \<noteq> None \<Longrightarrow>
   \<forall>k<length ss. fault w (length (trace w) + k) = None \<Longrightarrow>
   docs (storeInitialSecrets_loop ss w) = docs w \<and>
   trace (storeInitialSecrets_loop ss w) = trace w @ map (\<lambda>p. (Read p, True)) (map fst ss)"
proof (induction ss arbitrary: w)
  case Nil
  show ?case by simp
next
  case (Cons a ss)
  obtain path secret where a: "a = (path, secret)" by (cases a)
  from Cons.prems(1) a obtain d where d: "docs w path = Some d" by auto
  from Cons.prems(2) have f: "fault w (length (trace w)) = None" by force
  let ?w1 = "console_log (SecretAlreadyExists path) (record_call (Read path) True w)"
  have w1: "docs ?w1 = docs w" "trace ?w1 = trace w @ [(Read path, True)]" "fault ?w1 = fault w"
    by (simp_all add: console_log_def record_call_def)
  have p1: "\<forall>p \<in> set (map fst ss). docs ?w1 p \<noteq> None"
    using Cons.prems(1) by (simp add: w1)
  have p2: "\<forall>k<length ss. fault ?w1 (length (trace ?w1) + k) = None"
  proof (intro allI impI)
    fix k assume "k < length ss"
    then have "Suc k < length (a # ss)" by simp
    with Cons.prems(2) have "fault w (length (trace w) + Suc k) = None" by blast
    then show "fault ?w1 (length (trace ?w1) + k) = None" by (simp add: w1)
  qed
  from Cons.IH [OF p1 p2] show ?case
    unfolding a seed_step_exists [OF f d] by (simp add: w1)
qed

lemma initialize_first_try:
  assumes "fault w (length (trace w)) = None"
  shows "\<exists>secrets n w2 trp.
     initialize w =
       (Inr (), console_log VaultInitialized
          ((storeInitialSecrets_loop secrets (w2\<lparr>draws := n\<rparr>))\<lparr>isInitialized := True\<rparr>)) \<and>
     map fst secrets = secret_paths \<and>
     (\<forall>doc. (''secret/data/transcendence/jwt'', doc) \<in> set secrets \<longrightarrow>
        (\<exists>s. doc ''secret'' = Some s \<and> length s = 128)) \<and>
     docs w2 = docs w \<and> fault w2 = fault w \<and>
     trace w2 = trace w @ (Health, True) # trp \<and> length trp = length policy_table \<and>
     write_attempts trp = [] \<and>
     (distinct (map fst (policies w)) \<longrightarrow> distinct (map fst (policies w2))) \<and>
     ((\<forall>k. fault w k = None) \<longrightarrow>
        policies w2 = fold (\<lambda>(k, v). upsert k v) policy_table (policies w)) \<and>
     ((\<forall>k<length policy_table. fault w (Suc (length (trace w)) + k) = None) \<longrightarrow>
        policies w2 = fold (\<lambda>(k, v). upsert k v) policy_table (policies w))"
proof -
  define w0 where "w0 = console_log InitializingVault w"
  define w1 where "w1 = w0\<lparr>trace := trace w0 @ replicate 0 (Health, False) @ [(Health, True)],
        console := console w0 @ waiting_lines 0 30 0 @ [VaultIsReady],
        sleeps := sleeps w0 @ replicate 0 2000\<rparr>"
  have b: "fault w0 (length (trace w0) + 0) = None"
    using assms by (simp add: w0_def console_log_def)
  have wait: "waitForVault 30 w0 = (Inr (), w1)"
    unfolding waitForVault_def w1_def by (rule waitForVault_loop_ready [OF _ b]) simp_all
  have w1: "trace w1 = trace w @ [(Health, True)]" "docs w1 = docs w" "fault w1 = fault w"
    "policies w1 = policies w"
    by (simp_all add: w1_def w0_def console_log_def)
  define w2 where "w2 = setupPolicies_loop policy_table w1"
  from setupPolicies_loop_no_writes [of policy_table w1] obtain trp where trp:
    "trace w2 = trace w1 @ trp" "length trp = length policy_table" "write_attempts trp = []"
    unfolding w2_def by blast
  have w2: "docs w2 = docs w" "fault w2 = fault w"
    by (simp_all add: w2_def setupPolicies_loop_frame w1)
  have dist: "distinct (map fst (policies w)) \<longrightarrow> distinct (map fst (policies w2))"
    unfolding w2_def using setupPolicies_loop_distinct [of w1 policy_table] by (simp add: w1)
  have rel: "(\<forall>k. fault w k = None) \<longrightarrow>
        policies w2 = fold (\<lambda>(k, v). upsert k v) policy_table (policies w)"
    unfolding w2_def using setupPolicies_loop_reliable [of w1 policy_table] by (simp add: w1)
  obtain secrets w3 where i: "initial_secrets w2 = (secrets, w3)"
    by (cases "initial_secrets w2")
  from initial_secrets_draws_only [of w2] i obtain n where w3: "w3 = w2\<lparr>draws := n\<rparr>" by auto
  from initial_secrets_paths [of w2] i have paths: "map fst secrets = secret_paths" by simp
  have jwt: "\<forall>doc. (''secret/data/transcendence/jwt'', doc) \<in> set secrets \<longrightarrow>
        (\<exists>s. doc ''secret'' = Some s \<and> length s = 128)"
    using initial_secrets_jwt [of _ w2] i by simp
  have init: "initialize w =
       (Inr (), console_log VaultInitialized
          ((storeInitialSecrets_loop secrets (w2\<lparr>draws := n\<rparr>))\<lparr>isInitialized := True\<rparr>))"
    using wait i w3
    by (simp add: initialize_def w0_def w2_def setupPolicies_def storeInitialSecrets_def)
  have t: "trace w2 = trace w @ (Health, True) # trp"
    by (simp add: trp(1) w1(1))
  have win: "(\<forall>k<length policy_table. fault w (Suc (length (trace w)) + k) = None) \<longrightarrow>
        policies w2 = fold (\<lambda>(k, v). upsert k v) policy_table (policies w)"
  proof
    assume "\<forall>k<length policy_table. fault w (Suc (length (trace w)) + k) = None"
    then have "\<forall>k<length policy_table. fault w1 (length (trace w1) + k) = None"
      by (simp add: w1)
    from setupPolicies_loop_window [OF this] show
      "policies w2 = fold (\<lambda>(k, v). upsert k v) policy_table (policies w)"
      by (simp add: w2_def w1)
  qed
  from init paths jwt w2 t trp(2,3) dist rel win show ?thesis by blast
qed

lemma initialize_reliable:
  assumes "\<forall>k. fault w k = None"
  shows "\<exists>w'. initialize w = (Inr (), w') \<and> (\<forall>k. fault w' k = None) \<and>
     policies w' = fold (\<lambda>(k, v). upsert k v) policy_table (policies w) \<and>
     (\<forall>p d. docs w p = Some d \<longrightarrow> docs w' p = Some d) \<and>
     (\<forall>p \<in> set secret_paths. docs w' p \<noteq> None)"
proof -
  from assms have "fault w (length (trace w)) = None" by simp
  from initialize_first_try [OF this] assms obtain secrets n w2 where
    init: "initialize w =
       (Inr (), console_log VaultInitialized
          ((storeInitialSecrets_loop secrets (w2\<lparr>draws := n\<rparr>))\<lparr>isInitialized := True\<rparr>))"
    and paths: "map fst secrets = secret_paths"
    and w2: "docs w2 = docs w" "fault w2 = fault w"
      "policies w2 = fold (\<lambda>(k, v). upsert k v) policy_table (policies w)"
    by blast
  define w3 where "w3 = storeInitialSecrets_loop secrets (w2\<lparr>draws := n\<rparr>)"
  have rel: "\<forall>k. fault (w2\<lparr>draws := n\<rparr>) k = None" using assms w2(2) by simp
  from storeInitialSecrets_loop_reliable [OF rel, of secrets] paths w2(1)
  have keep: "\<forall>p d. docs w p = Some d \<longrightarrow> docs w3 p = Some d"
    and seeded: "\<forall>p \<in> set secret_paths. docs w3 p \<noteq> None"
    unfolding w3_def by simp_all
  have f3: "fault w3 = fault w" "policies w3 = policies w2"
    unfolding w3_def by (simp_all add: storeInitialSecrets_loop_frame w2(2))
  let ?w' = "console_log VaultInitialized (w3\<lparr>isInitialized := True\<rparr>)"
  have "initialize w = (Inr (), ?w')" by (simp add: init w3_def)
  moreover have "\<forall>k. fault ?w' k = None" using assms f3(1) by (simp add: console_log_def)
  moreover have "policies ?w' = fold (\<lambda>(k, v). upsert k v) policy_table (policies w)"
    by (simp add: console_log_def f3(2) w2(3))
  moreover have "\<forall>p d. docs w p = Some d \<longrightarrow> docs ?w' p = Some d"
    using keep by (simp add: console_log_def)
  moreover have "\<forall>p \<in> set secret_paths. docs ?w' p \<noteq> None"
    using seeded by (simp add: console_log_def)
  ultimately show ?thesis by blast
qed

lemma initialize_seeded:
  assumes "\<forall>p \<in> set secret_paths. docs w p \<noteq> None"
    and "\<forall>k<12. fault w (length (trace w) + k) = None"
  shows "\<exists>w' trp. initialize w = (Inr (), w') \<and> docs w' = docs w \<and> fault w' = fault w \<and>
     trace w' = trace w @ (Health, True) # trp @ map (\<lambda>p. (Read p, True)) secret_paths \<and>
     length trp = length policy_table \<and> write_attempts trp = [] \<and>
     ((\<forall>k. fault w k = None) \<longrightarrow>
        policies w' = fold (\<lambda>(k, v). upsert k v) policy_table (policies w)) \<and>
     policies w' = fold (\<lambda>(k, v). upsert k v) policy_table (policies w)"
proof -
  from assms(2) have "fault w (length (trace w)) = None" by force
  from initialize_first_try [OF this] obtain secrets n w2 trp where
    init: "initialize w =
       (Inr (), console_log VaultInitialized
          ((storeInitialSecrets_loop secrets (w2\<lparr>draws := n\<rparr>))\<lparr>isInitialized := True\<rparr>))"
    and paths: "map fst secrets = secret_paths"
    and w2: "docs w2 = docs w" "fault w2 = fault w"
      "trace w2 = trace w @ (Health, True) # trp" "length trp = length policy_table"
      "write_attempts trp = []"
    and pol: "(\<forall>k. fault w k = None) \<longrightarrow>
        policies w2 = fold (\<lambda>(k, v). upsert k v) policy_table (policies w)"
    and polw: "(\<forall>k<length policy_table. fault w (Suc (length (trace w)) + k) = None) \<longrightarrow>
        policies w2 = fold (\<lambda>(k, v). upsert k v) policy_table (policies w)"
    by blast
  have "\<forall>k<length policy_table. fault w (Suc (length (trace w)) + k) = None"
  proof (intro allI impI)
    fix k assume "k < length policy_table"
    then have "Suc k < 12" by (simp add: policy_table_def)
    with assms(2) have "fault w (length (trace w) + Suc k) = None" by blast
    then show "fault w (Suc (length (trace w)) + k) = None" by simp
  qed
  with polw have pol2: "policies w2 = fold (\<lambda>(k, v). upsert k v) policy_table (policies w)"
    by blast
  define w3 where "w3 = storeInitialSecrets_loop secrets (w2\<lparr>draws := n\<rparr>)"
  have "length (map fst secrets) = length secret_paths" by (simp only: paths)
  then have len1: "length secrets = 7" by (simp add: secret_paths_def)
  have len2: "length (trace w2) = length (trace w) + 5"
    using w2(3,4) by (simp add: policy_table_def)
  note len = len1 len2
  have p1: "\<forall>p \<in> set (map fst secrets). docs (w2\<lparr>draws := n\<rparr>) p \<noteq> None"
    using assms(1) by (simp add: paths w2(1))
  have p2: "\<forall>k<length secrets. fault (w2\<lparr>draws := n\<rparr>) (length (trace (w2\<lparr>draws := n\<rparr>)) + k) = None"
  proof (intro allI impI)
    fix k assume "k < length secrets"
    then have "5 + k < 12" using len(1) by simp
    with assms(2) have "fault w (length (trace w) + (5 + k)) = None" by blast
    then show "fault (w2\<lparr>draws := n\<rparr>) (length (trace (w2\<lparr>draws := n\<rparr>)) + k) = None"
      by (simp add: w2(2) len(2) add.assoc)
  qed
  from storeInitialSecrets_loop_present [OF p1 p2]
  have w3: "docs w3 = docs w" "trace w3 = trace w2 @ map (\<lambda>p. (Read p, True)) secret_paths"
    unfolding w3_def by (simp_all add: paths w2(1))
  have f3: "fault w3 = fault w" "policies w3 = policies w2"
    unfolding w3_def by (simp_all add: storeInitialSecrets_loop_frame w2(2))
  let ?w' = "console_log VaultInitialized (w3\<lparr>isInitialized := True\<rparr>)"
  have "initialize w = (Inr (), ?w')" by (simp add: init w3_def)
  moreover have "docs ?w' = docs w" "fault ?w' = fault w"
    by (simp_all add: console_log_def w3(1) f3(1))
  moreover have "trace ?w' = trace w @ (Health, True) # trp @ map (\<lambda>p. (Read p, True)) secret_paths"
    by (simp add: console_log_def w3(2) w2(3))
  moreover have "(\<forall>k. fault w k = None) \<longrightarrow>
        policies ?w' = fold (\<lambda>(k, v). upsert k v) policy_table (policies w)"
    using pol by (simp add: console_log_def f3(2))
  moreover have "policies ?w' = fold (\<lambda>(k, v). upsert k v) policy_table (policies w)"
    using pol2 by (simp add: console_log_def f3(2))
  ultimately show ?thesis using w2(4,5) by blast
qed

lemma initialize_overwrites:
  assumes "fault w (length (trace w)) = None"
    and "docs w ''secret/data/transcendence/database'' \<noteq> None"
    and "fault w (length (trace w) + 5) = None"
    and "fault w (length (trace w) + 6) \<noteq> None"
    and "fault w (length (trace w) + 7) = None"
  shows "\<exists>doc s. fst (initialize w) = Inr () \<and>
     docs (snd (initialize w)) ''secret/data/transcendence/jwt'' = Some doc \<and>
     doc ''secret'' = Some s \<and> length s = 128"
proof -
  from initialize_first_try [OF assms(1)] obtain secrets n w2 trp where
    init: "initialize w =
       (Inr (), console_log VaultInitialized
          ((storeInitialSecrets_loop secrets (w2\<lparr>draws := n\<rparr>))\<lparr>isInitialized := True\<rparr>))"
    and paths: "map fst secrets = secret_paths"
    and jwt: "\<forall>doc. (''secret/data/transcendence/jwt'', doc) \<in> set secrets \<longrightarrow>
        (\<exists>s. doc ''secret'' = Some s \<and> length s = 128)"
    and w2: "docs w2 = docs w" "fault w2 = fault w"
      "trace w2 = trace w @ (Health, True) # trp" "length trp = length policy_table"
    by blast
  define v where "v = w2\<lparr>draws := n\<rparr>"
  have v: "docs v = docs w" "fault v = fault w" "length (trace v) = length (trace w) + 5"
    using w2 by (simp_all add: v_def policy_table_def)
  from paths obtain d1 d2 rest where
    secrets: "secrets = (''secret/data/transcendence/database'', d1) #
                (''secret/data/transcendence/jwt'', d2) # rest"
    and rest: "''secret/data/transcendence/jwt'' \<notin> set (map fst rest)"
    by (auto simp: secret_paths_def map_eq_Cons_conv)
  from assms(2) obtain d where d: "docs v ''secret/data/transcendence/database'' = Some d"
    by (auto simp: v(1))
  have f0: "fault v (length (trace v)) = None" using assms(3) by (simp add: v ac_simps)
  define v1 where "v1 = console_log (SecretAlreadyExists ''secret/data/transcendence/database'')
      (record_call (Read ''secret/data/transcendence/database'') True v)"
  have s1: "storeInitialSecrets_loop secrets v =
      storeInitialSecrets_loop ((''secret/data/transcendence/jwt'', d2) # rest) v1"
    unfolding secrets v1_def by (rule seed_step_exists [OF f0 d])
  have v1: "fault v1 = fault w" "length (trace v1) = length (trace w) + 6" "docs v1 = docs w"
    by (simp_all add: v1_def console_log_def record_call_def v)
  have f1: "fault v1 (length (trace v1)) \<noteq> None \<or> docs v1 ''secret/data/transcendence/jwt'' = None"
    using assms(4) by (simp add: v1 ac_simps)
  have f2: "fault v1 (Suc (length (trace v1))) = None"
    using assms(5) by (simp add: v1 ac_simps)
  define v2 where "v2 = console_log (SecretStored ''secret/data/transcendence/jwt'')
          (record_call (Write ''secret/data/transcendence/jwt'' d2) True
             ((record_call (Read ''secret/data/transcendence/jwt'') False v1)
                \<lparr>docs := (docs v1)(''secret/data/transcendence/jwt'' \<mapsto> d2)\<rparr>))"
  have s2: "storeInitialSecrets_loop ((''secret/data/transcendence/jwt'', d2) # rest) v1 =
      storeInitialSecrets_loop rest v2"
    unfolding v2_def by (rule seed_step_stored [OF f1 f2])
  have v2: "docs v2 ''secret/data/transcendence/jwt'' = Some d2"
    by (simp add: v2_def console_log_def record_call_def)
  from storeInitialSecrets_loop_outside [OF rest, of v2] v2
  have final: "docs (storeInitialSecrets_loop secrets v) ''secret/data/transcendence/jwt'' = Some d2"
    by (simp only: s1 s2)
  from jwt secrets obtain s where s: "d2 ''secret'' = Some s" "length s = 128" by auto
  show ?thesis
    using final s by (simp add: init v_def console_log_def)
qed

subsection \<open>When start-up fails\<close>



subsection \<open>Starting up twice\<close>

text \<open>
  A start-up against a store in which every fixed secret path holds a document,
  whatever start-up or operator put it there, and during which none of its twelve
  calls to the store fails (the health check, four policies, seven reads): it
  succeeds, changes no document and writes nothing, and it leaves every policy as it
  was when the four policies are installed already.
\<close>

lemma seeded_startup_changes_nothing:
  assumes "\<forall>p \<in> set secret_paths. docs w p \<noteq> None"
    and "\<forall>k<12. fault w (length (trace w) + k) = None"
  shows "fst (initialize w) = Inr ()"
    and "docs (snd (initialize w)) = docs w"
    and "write_attempts (drop (length (trace w)) (trace (snd (initialize w)))) = []"
    and "policies (snd (initialize w)) =
           fold (\<lambda>(k, v). upsert k v) policy_table (policies w)"
    and "\<forall>(k, v) \<in> set policy_table. map_of (policies w) k = Some v \<Longrightarrow>
           policies (snd (initialize w)) = policies w"
    and "fault (snd (initialize w)) = fault w"
    and "length (trace (snd (initialize w))) = length (trace w) + 12"
proof -
  from initialize_seeded [OF assms] obtain w' trp where
    i: "initialize w = (Inr (), w')" and d: "docs w' = docs w"
    and t: "trace w' = trace w @ (Health, True) # trp @ map (\<lambda>p. (Read p, True)) secret_paths"
    and trp: "write_attempts trp = []" "length trp = length policy_table"
    and p: "policies w' = fold (\<lambda>(k, v). upsert k v) policy_table (policies w)"
    and f: "fault w' = fault w"
    by blast
  show "fault (snd (initialize w)) = fault w" by (simp add: i f)
  show "length (trace (snd (initialize w))) = length (trace w) + 12"
    by (simp add: i t trp(2) policy_table_def secret_paths_def)
  have reads: "write_attempts (map (\<lambda>p. (Read p, True)) ps) = []" for ps
    by (induction ps) simp_all
  show "fst (initialize w) = Inr ()" "docs (snd (initialize w)) = docs w"
    "policies (snd (initialize w)) = fold (\<lambda>(k, v). upsert k v) policy_table (policies w)"
    by (simp_all add: i d p)
  show "write_attempts (drop (length (trace w)) (trace (snd (initialize w)))) = []"
    by (simp add: i t write_attempts_append trp reads)
  show "policies (snd (initialize w)) = policies w"
    if "\<forall>(k, v) \<in> set policy_table. map_of (policies w) k = Some v"
    using fold_upsert_present [OF that] by (simp add: i p)
qed

text \<open>
  Two start-ups in a row against a store none of whose calls fails: both succeed,
  the first leaves a document at every fixed path and keeps every document that was
  there, and the second changes neither a document nor a policy and writes nothing.
\<close>

lemma reliable_store_idempotent:
  assumes r: "\<forall>k. fault w k = None"
  shows "fst (initialize w) = Inr ()" "fst (initialize (snd (initialize w))) = Inr ()"
    "docs (snd (initialize (snd (initialize w)))) = docs (snd (initialize w))"
    "policies (snd (initialize (snd (initialize w)))) = policies (snd (initialize w))"
    "\<forall>p \<in> set secret_paths. docs (snd (initialize w)) p \<noteq> None"
    "\<forall>p d. docs w p = Some d \<longrightarrow> docs (snd (initialize w)) p = Some d"
    "write_attempts (drop (length (trace (snd (initialize w))))
        (trace (snd (initialize (snd (initialize w)))))) = []"
proof -
  from initialize_reliable [OF r] obtain w1 where
    i1: "initialize w = (Inr (), w1)" and r1: "\<forall>k. fault w1 k = None"
    and p1: "policies w1 = fold (\<lambda>(k, v). upsert k v) policy_table (policies w)"
    and keep: "\<forall>p d. docs w p = Some d \<longrightarrow> docs w1 p = Some d"
    and seeded: "\<forall>p \<in> set secret_paths. docs w1 p \<noteq> None"
    by blast
  from r1 have win: "\<forall>k<12. fault w1 (length (trace w1) + k) = None" by simp
  note second = seeded_startup_changes_nothing [OF seeded win]
  have same: "policies (snd (initialize w1)) = policies w1"
    unfolding second(4) p1 by (rule fold_upsert_idempotent [OF policy_table_distinct])
  show "fst (initialize w) = Inr ()" "fst (initialize (snd (initialize w))) = Inr ()"
    "docs (snd (initialize (snd (initialize w)))) = docs (snd (initialize w))"
    "policies (snd (initialize (snd (initialize w)))) = policies (snd (initialize w))"
    "\<forall>p \<in> set secret_paths. docs (snd (initialize w)) p \<noteq> None"
    "\<forall>p d. docs w p = Some d \<longrightarrow> docs (snd (initialize w)) p = Some d"
    "write_attempts (drop (length (trace (snd (initialize w))))
        (trace (snd (initialize (snd (initialize w)))))) = []"
    using seeded keep second(1,2,3) same by (simp_all add: i1)
qed

text \<open>
  Claim C2. Seeding is meant to be idempotent: a secret that exists is never
  written again, as the comments in \<open>storeInitialSecrets\<close> say (check whether the
  secret exists already; it does not exist, so create it). The code does not look at
  why a read failed: any rejected read is taken for a missing document and followed
  by a write. Here the store was seeded earlier, every fixed path holding a
  document, and a single read is refused during the second of two start-ups, the
  19th call made to the store: the signing-key document, left untouched by the first
  start-up, is replaced by freshly generated material in the second. Without the
  refused read the same two start-ups leave the signing key as it was.
\<close>

theorem transient_read_failure_reseeds:
  "fault glitch_world 18 = Some ''read ETIMEDOUT'' \<and>
   (case docs glitch_world ''secret/data/transcendence/jwt'' of
      Some doc \<Rightarrow> doc ''secret'' = Some ''s1'' | None \<Rightarrow> False) \<and>
   fst (initialize glitch_world) = Inr () \<and>
   fst (initialize (snd (initialize glitch_world))) = Inr () \<and>
   (case docs (snd (initialize glitch_world)) ''secret/data/transcendence/jwt'' of
      Some doc \<Rightarrow> doc ''secret'' = Some ''s1'' | None \<Rightarrow> False) \<and>
   (case docs (snd (initialize (snd (initialize glitch_world)))) ''secret/data/transcendence/jwt'' of
      Some doc \<Rightarrow> doc ''secret'' \<noteq> Some ''s1'' | None \<Rightarrow> False) \<and>
   docs (snd (initialize (snd (initialize glitch_world)))) \<noteq> docs (snd (initialize glitch_world)) \<and>
   (case docs (snd (initialize (snd (initialize seeded_world)))) ''secret/data/transcendence/jwt'' of
      Some doc \<Rightarrow> doc ''secret'' = Some ''s1'' | None \<Rightarrow> False)"
proof -
  have present: "\<forall>p \<in> set secret_paths. docs glitch_world p \<noteq> None"
    by (simp add: glitch_world_def seeded_world_def quiet_world_def)
  have win: "\<forall>k<12. fault glitch_world (length (trace glitch_world) + k) = None"
    by (simp add: glitch_world_def seeded_world_def quiet_world_def)
  note first = seeded_startup_changes_nothing [OF present win]
  define w1 where "w1 = snd (initialize glitch_world)"
  have i1: "fst (initialize glitch_world) = Inr ()" by (rule first(1))
  have d1: "docs w1 = docs glitch_world" unfolding w1_def by (rule first(2))
  have f1: "fault w1 = fault glitch_world" unfolding w1_def by (rule first(6))
  have len: "length (trace w1) = 12"
    unfolding w1_def first(7) by (simp add: glitch_world_def seeded_world_def quiet_world_def)
  have before: "docs w1 ''secret/data/transcendence/jwt'' =
      Some (map_of [(''secret'', ''s1''), (''algorithm'', ''HS256'')])"
    by (simp add: d1 glitch_world_def seeded_world_def quiet_world_def secret_paths_def)
  have a: "fault w1 (length (trace w1)) = None"
    "docs w1 ''secret/data/transcendence/database'' \<noteq> None"
    "fault w1 (length (trace w1) + 5) = None"
    "fault w1 (length (trace w1) + 6) \<noteq> None"
    "fault w1 (length (trace w1) + 7) = None"
    by (simp_all add: f1 d1 len glitch_world_def seeded_world_def quiet_world_def secret_paths_def)
  from initialize_overwrites [OF a] obtain doc s where
    i2: "fst (initialize w1) = Inr ()"
    and after: "docs (snd (initialize w1)) ''secret/data/transcendence/jwt'' = Some doc"
    and s: "doc ''secret'' = Some s" "length s = 128"
    by blast
  from s have ne: "doc ''secret'' \<noteq> Some ''s1''" by auto
  have diff: "docs (snd (initialize w1)) \<noteq> docs w1"
  proof
    assume "docs (snd (initialize w1)) = docs w1"
    with before after have "doc = map_of [(''secret'', ''s1''), (''algorithm'', ''HS256'')]"
      by simp
    with ne show False by simp
  qed
  have input: "fault glitch_world 18 = Some ''read ETIMEDOUT''"
    "(case docs glitch_world ''secret/data/transcendence/jwt'' of
      Some doc \<Rightarrow> doc ''secret'' = Some ''s1'' | None \<Rightarrow> False)"
    by (simp_all add: glitch_world_def seeded_world_def quiet_world_def secret_paths_def)
  have quiet: "\<forall>k. fault seeded_world k = None"
    by (simp add: seeded_world_def quiet_world_def)
  note twice = reliable_store_idempotent [OF quiet]
  have "docs seeded_world ''secret/data/transcendence/jwt'' =
      Some (map_of [(''secret'', ''s1''), (''algorithm'', ''HS256'')])"
    by (simp add: seeded_world_def quiet_world_def secret_paths_def)
  with twice(6) have "docs (snd (initialize seeded_world)) ''secret/data/transcendence/jwt'' =
      Some (map_of [(''secret'', ''s1''), (''algorithm'', ''HS256'')])"
    by blast
  then have kept: "(case docs (snd (initialize (snd (initialize seeded_world))))
        ''secret/data/transcendence/jwt'' of
      Some doc \<Rightarrow> doc ''secret'' = Some ''s1'' | None \<Rightarrow> False)"
    by (simp add: twice(3))
  have main: "fst (initialize w1) = Inr () \<and>
   (case docs w1 ''secret/data/transcendence/jwt'' of
      Some doc \<Rightarrow> doc ''secret'' = Some ''s1'' | None \<Rightarrow> False) \<and>
   (case docs (snd (initialize w1)) ''secret/data/transcendence/jwt'' of
      Some doc \<Rightarrow> doc ''secret'' \<noteq> Some ''s1'' | None \<Rightarrow> False) \<and>
   docs (snd (initialize w1)) \<noteq> docs w1"
    using i2 ne diff by (simp add: before after)
  from input i1 main [unfolded w1_def] kept show ?thesis by (intro conjI) (elim conjE, assumption)+
qed
section \<open>The routes\<close>

lemma get_health_always_200:
  "status (fst (get_health w)) = 200 \<and> field (body (fst (get_health w))) ''status'' = Some (JStr ''healthy'')"
  by (simp add: get_health_def getHealthStatus_def vault_health_def toISOString_now_def js_object_def
      split: option.splits prod.splits sum.splits)

text \<open>
  Claim C4. With the backing store out of reach, \<open>GET /health\<close> is meant to answer
  with status 500 and \<open>status: "unhealthy"\<close>. The code does not: \<open>getHealthStatus\<close>
  catches the failure of the store's health call and returns a value, so the route
  never reaches its \<open>catch\<close> branch. On the unreachable store the response has status
  200 and \<open>status: "healthy"\<close>; only the nested \<open>vault.vault_status\<close> says
  \<open>unhealthy\<close>.
\<close>

theorem get_health_unreachable:
  "fault unreachable_world (length (trace unreachable_world)) = Some ''connect ECONNREFUSED'' \<and>
   status (fst (get_health unreachable_world)) = 200 \<and>
   field (body (fst (get_health unreachable_world))) ''status'' = Some (JStr ''healthy'') \<and>
   field (body (fst (get_health unreachable_world))) ''vault'' =
     Some (JObj [(''vault_status'', JStr ''unhealthy''), (''error'', JStr ''connect ECONNREFUSED'')]) \<and>
   trace (snd (get_health unreachable_world)) = [(Health, False)]"
  by (simp add: get_health_def getHealthStatus_def vault_health_def toISOString_now_def js_object_def
      unreachable_world_def quiet_world_def record_call_def)

lemma falsy_cases:
  "falsy v \<longleftrightarrow> v \<in> {None, Some JNull, Some (JBool False), Some (JNum 0), Some (JStr [])}"
  apply (cases v; simp add: falsy_def)
  subgoal for j by (cases j) auto
  done

lemma bad_request_400:
  "status bad_request = 400 \<and> field (body bad_request) ''success'' = Some (JBool False)"
  by (simp add: bad_request_def js_object_def)

text \<open>
  Claim C5, as the code has it. \<open>POST /api/tokens/service\<close> answers with status 400
  and \<open>success: false\<close>, without calling the backing store, exactly when
  \<open>serviceName\<close> or \<open>policies\<close> is falsy: absent, \<open>null\<close>, \<open>false\<close>, \<open>0\<close> or the
  empty string; the body \<open>{}\<close> is such a request. Otherwise (an empty list of
  policies included) it makes one \<open>tokenCreate\<close> call for a renewable token with a
  time to live of 24 hours and exactly the policies of the request, and answers 200
  with the token string alone when the call succeeds, 500 with the error message when
  it fails.
\<close>

theorem post_tokens_service_spec:
  "(falsy (field b ''serviceName'') \<or> falsy (field b ''policies'') \<longrightarrow>
      post_tokens_service b w = (bad_request, w)) \<and>
   status bad_request = 400 \<and> field (body bad_request) ''success'' = Some (JBool False) \<and>
   post_tokens_service (JObj []) w = (bad_request, w) \<and>
   (\<not> falsy (field b ''serviceName'') \<and> \<not> falsy (field b ''policies'') \<longrightarrow>
      (\<exists>name ps. field b ''serviceName'' = Some name \<and> field b ''policies'' = Some ps \<and>
         trace (snd (post_tokens_service b w)) =
           trace w @
           [(TokenCreate \<lparr>tr_policies = ps, tr_ttl = ''24h'', tr_renewable = True,
                          tr_meta_service = name, tr_meta_created_at = date w (draws w)\<rparr>,
             fault w (length (trace w)) = None)] \<and>
         fst (post_tokens_service b w) =
           (case fault w (length (trace w)) of
              None \<Rightarrow>
                \<lparr>status = 200,
                 body = JObj [(''success'', JBool True),
                              (''data'', JObj [(''token'', JStr (minted w (length (trace w))))])]\<rparr>
            | Some m \<Rightarrow>
                \<lparr>status = 500,
                 body = JObj [(''success'', JBool False), (''error'', JStr m)]\<rparr>)))"
proof -
  have a: "falsy (field b ''serviceName'') \<or> falsy (field b ''policies'') \<Longrightarrow>
      post_tokens_service b w = (bad_request, w)"
    by (auto simp: post_tokens_service_def Let_def)
  have b: "post_tokens_service (JObj []) w = (bad_request, w)"
    by (simp add: post_tokens_service_def Let_def falsy_def)
  have c: "\<exists>name ps. field b ''serviceName'' = Some name \<and> field b ''policies'' = Some ps \<and>
         trace (snd (post_tokens_service b w)) =
           trace w @
           [(TokenCreate \<lparr>tr_policies = ps, tr_ttl = ''24h'', tr_renewable = True,
                          tr_meta_service = name, tr_meta_created_at = date w (draws w)\<rparr>,
             fault w (length (trace w)) = None)] \<and>
         fst (post_tokens_service b w) =
           (case fault w (length (trace w)) of
              None \<Rightarrow>
                \<lparr>status = 200,
                 body = JObj [(''success'', JBool True),
                              (''data'', JObj [(''token'', JStr (minted w (length (trace w))))])]\<rparr>
            | Some m \<Rightarrow>
                \<lparr>status = 500,
                 body = JObj [(''success'', JBool False), (''error'', JStr m)]\<rparr>)"
    if "\<not> falsy (field b ''serviceName'')" "\<not> falsy (field b ''policies'')"
  proof -
    from that obtain name ps where f: "field b ''serviceName'' = Some name" "field b ''policies'' = Some ps"
      by (auto simp: falsy_def split: option.splits)
    show ?thesis
      using that f
      by (cases "fault w (length (trace w))")
        (simp_all add: post_tokens_service_def Let_def createServiceToken_def vault_tokenCreate_def
          toISOString_now_def record_call_def console_log_def js_object_def)
  qed
  from a b c bad_request_400 show ?thesis by blast
qed

text \<open>
  An empty list is truthy in JavaScript: a request whose \<open>policies\<close> is \<open>[]\<close> is not
  refused, and the store is asked for a token bound to no policy.
\<close>

theorem post_tokens_service_empty_policies:
  "falsy (field (JObj [(''serviceName'', JStr ''auth-service''), (''policies'', JArr [])]) ''policies'') = False \<and>
   status (fst (post_tokens_service
      (JObj [(''serviceName'', JStr ''auth-service''), (''policies'', JArr [])]) quiet_world)) = 200 \<and>
   map fst (trace (snd (post_tokens_service
      (JObj [(''serviceName'', JStr ''auth-service''), (''policies'', JArr [])]) quiet_world))) =
     [TokenCreate \<lparr>tr_policies = JArr [], tr_ttl = ''24h'', tr_renewable = True,
                    tr_meta_service = JStr ''auth-service'',
                    tr_meta_created_at = ''2024-01-01T00:00:00.0Z''\<rparr>]"
  by (simp add: post_tokens_service_def Let_def createServiceToken_def vault_tokenCreate_def
          toISOString_now_def record_call_def console_log_def js_object_def falsy_def quiet_world_def)

theorem post_tokens_service_spec_witness:
  "post_tokens_service (JObj [(''serviceName'', JStr [])]) quiet_world = (bad_request, quiet_world) \<and>
   status (fst (post_tokens_service
      (JObj [(''serviceName'', JStr ''auth-service''), (''policies'', JArr [JStr ''transcendence-auth''])])
      quiet_world)) = 200 \<and>
   body (fst (post_tokens_service
      (JObj [(''serviceName'', JStr ''auth-service''), (''policies'', JArr [JStr ''transcendence-auth''])])
      quiet_world)) = JObj [(''success'', JBool True), (''data'', JObj [(''token'', JStr ''hvs.0'')])] \<and>
   status (fst (post_tokens_service
      (JObj [(''serviceName'', JStr ''auth-service''), (''policies'', JArr [JStr ''transcendence-auth''])])
      unreachable_world)) = 500"
proof -
  let ?b = "JObj [(''serviceName'', JStr ''auth-service''), (''policies'', JArr [JStr ''transcendence-auth''])]"
  have 1: "post_tokens_service (JObj [(''serviceName'', JStr [])]) quiet_world = (bad_request, quiet_world)"
    using post_tokens_service_spec [of "JObj [(''serviceName'', JStr [])]" quiet_world]
    by (simp add: falsy_def)
  have nf: "\<not> falsy (field ?b ''serviceName'') \<and> \<not> falsy (field ?b ''policies'')"
    by (simp add: falsy_def)
  have 2: "fst (post_tokens_service ?b quiet_world) =
     \<lparr>status = 200, body = JObj [(''success'', JBool True), (''data'', JObj [(''token'', JStr ''hvs.0'')])]\<rparr>"
    using post_tokens_service_spec [of ?b quiet_world] nf
    by (simp add: quiet_world_def)
  have 3: "status (fst (post_tokens_service ?b unreachable_world)) = 500"
    using post_tokens_service_spec [of ?b unreachable_world] nf
    by (simp add: quiet_world_def unreachable_world_def)
  from 1 2 3 show ?thesis by simp
qed

section \<open>The database URL\<close>

lemma getSecret_Inr:
  "getSecret path w = (Inr d, w') \<Longrightarrow> docs w (''secret/data/transcendence/'' @ path) = Some d"
  by (auto simp: getSecret_def vault_read_def split: option.splits prod.splits sum.splits)

text \<open>
  The URL that the \<open>getDatabaseUrl\<close> closure of the gateway's \<open>getDatabaseConfig\<close>
  returns does not depend on its arguments: whatever is passed, the database
  component is the stored \<open>shared_database\<close>, or \<open>transcendence\<close> when that field
  is absent or empty.
\<close>

lemma getDatabaseUrl_ignores_arguments:
  assumes "getDatabaseConfig w = (Inr cfg, w')"
  shows "\<exists>dbSecrets. docs w ''secret/data/transcendence/database'' = Some dbSecrets \<and>
         (\<forall>arguments. getDatabaseUrl cfg arguments =
            ''mysql://'' @ js_str (dbSecrets ''username'') @ '':'' @
            js_str (dbSecrets ''password'') @ ''@'' @ js_str (dbSecrets ''host'') @ '':'' @
            js_str (dbSecrets ''port'') @ ''/'' @
            or_default (dbSecrets ''shared_database'') ''transcendence'') \<and>
         database cfg = or_default (dbSecrets ''shared_database'') ''transcendence''"
proof -
  from assms obtain dbSecrets w1 where g: "getSecret ''database'' w = (Inr dbSecrets, w1)"
    by (auto simp: getDatabaseConfig_def split: prod.splits sum.splits)
  from getSecret_Inr [OF g] have d: "docs w ''secret/data/transcendence/database'' = Some dbSecrets"
    by simp
  from assms g have cfg: "cfg = \<lparr>host = dbSecrets ''host'',
                port = parseInt (js_str (dbSecrets ''port'')),
                username = dbSecrets ''username'',
                password = dbSecrets ''password'',
                database = or_default (dbSecrets ''shared_database'') ''transcendence'',
                getDatabaseUrl = (\<lambda>arguments.
                  let database = or_default (dbSecrets ''shared_database'') ''transcendence''
                  in ''mysql://'' @ js_str (dbSecrets ''username'') @ '':'' @
                     js_str (dbSecrets ''password'') @ ''@'' @ js_str (dbSecrets ''host'') @
                     '':'' @ js_str (dbSecrets ''port'') @ ''/'' @ database)\<rparr>"
    by (simp add: getDatabaseConfig_def)
  show ?thesis using d by (simp add: cfg)
qed

text \<open>
  The closure does not leave the gateway: the body that the route sends has no
  member \<open>getDatabaseUrl\<close>. And whatever the gateway or the network answers, the
  client's \<open>getDatabaseUrl\<close> returns no URL: it throws, or it never settles.
\<close>

lemma get_database_config_sends_no_closure:
  "(case field (body (fst (get_database_config w))) ''data'' of
      None \<Rightarrow> True | Some config \<Rightarrow> field config ''getDatabaseUrl'' = None)"
  by (simp add: get_database_config_def stringified_def js_object_def
      split: prod.splits sum.splits option.splits)

lemma client_getDatabaseUrl_never_returns:
  "fst (client_getDatabaseUrl c d w) \<noteq> Some (Inr u)"
  by (simp add: client_getDatabaseUrl_def split: prod.splits option.splits sum.splits)

lemma database_world_config:
  "getDatabaseConfig database_world =
     (Inr \<lparr>host = Some ''database-service'', port = Some 3306, username = Some ''user'',
           password = Some ''pw'', database = ''transcendence'',
           getDatabaseUrl = (\<lambda>arguments.
              ''mysql://user:pw@database-service:3306/transcendence'')\<rparr>,
      database_world\<lparr>trace := [(Read ''secret/data/transcendence/database'', True)]\<rparr>)"
  by (simp add: getDatabaseConfig_def getSecret_def vault_read_def database_world_def
      quiet_world_def database_doc_def record_call_def js_str_def or_default_def parseInt_def
      parse_digits_def digits_value_def is_digit_in_def digit_value_def is_space_def Let_def)


lemma database_world_response:
  "fst (get_database_config database_world) =
     \<lparr>status = 200,
      body = JObj [(''success'', JBool True),
                   (''data'', JObj [(''host'', JStr ''database-service''), (''port'', JNum 3306),
                                    (''username'', JStr ''user''), (''password'', JStr ''pw''),
                                    (''database'', JStr ''transcendence'')])]\<rparr>"
  by (simp add: get_database_config_def database_world_config stringified_def js_object_def)

text \<open>
  Claim C9. Every service is meant to receive, from the client's
  \<open>getDatabaseUrl(d)\<close>, the URL of the one shared database, whatever \<open>d\<close> is. The
  closure that computes this URL in the gateway does ignore its arguments; but it is
  a function, so \<open>JSON.stringify\<close> leaves it out of the response and the client
  holds a configuration without it. The call \<open>dbConfig.getDatabaseUrl(database)\<close>
  therefore throws a TypeError: for no client, argument and network does
  \<open>getDatabaseUrl\<close> return a URL. With the database document stored, the gateway
  computes \<open>mysql://user:pw@database-service:3306/transcendence\<close> in process and
  answers the request with status 200, and the client that asks for the database
  \<open>auth_db\<close> of \<open>auth-service\<close> throws.
\<close>

theorem client_getDatabaseUrl_throws:
  "(\<forall>u. fst (client_getDatabaseUrl c d w) \<noteq> Some (Inr u)) \<and>
   (case fst (getDatabaseConfig database_world) of
      Inr cfg \<Rightarrow>
        getDatabaseUrl cfg [Some (JStr ''auth_db'')] =
          ''mysql://user:pw@database-service:3306/transcendence''
    | Inl error \<Rightarrow> False) \<and>
   fst (get_database_config database_world) =
     \<lparr>status = 200,
      body = JObj [(''success'', JBool True),
                   (''data'', JObj [(''host'', JStr ''database-service''), (''port'', JNum 3306),
                                    (''username'', JStr ''user''), (''password'', JStr ''pw''),
                                    (''database'', JStr ''transcendence'')])]\<rparr> \<and>
   (\<forall>k. outcomes config_net k =
      Answered 200 ''OK'' config_text (Some (body (fst (get_database_config database_world))))) \<and>
   (case field (body (fst (get_database_config database_world))) ''data'' of
      None \<Rightarrow> False | Some config \<Rightarrow> field config ''getDatabaseUrl'' = None) \<and>
   getServiceDatabase ''auth-service'' = Name ''auth_db'' \<and>
   client_getDatabaseUrl default_client ''auth_db'' config_net =
     (Some (Inl (Error ''dbConfig.getDatabaseUrl is not a function'')),
      config_net\<lparr>sent := [''/api/database/config'']\<rparr>)"
proof -
  have never: "\<forall>u. fst (client_getDatabaseUrl c d w) \<noteq> Some (Inr u)"
    by (simp add: client_getDatabaseUrl_never_returns)
  from getDatabaseUrl_ignores_arguments [OF database_world_config] obtain dbSecrets where
    d: "docs database_world ''secret/data/transcendence/database'' = Some dbSecrets"
    and url: "\<forall>arguments.
      getDatabaseUrl
        \<lparr>host = Some ''database-service'', port = Some 3306, username = Some ''user'',
           password = Some ''pw'', database = ''transcendence'',
           getDatabaseUrl = (\<lambda>arguments.
              ''mysql://user:pw@database-service:3306/transcendence'')\<rparr> arguments =
      ''mysql://'' @ js_str (dbSecrets ''username'') @ '':'' @
      js_str (dbSecrets ''password'') @ ''@'' @ js_str (dbSecrets ''host'') @ '':'' @
      js_str (dbSecrets ''port'') @ ''/'' @
      or_default (dbSecrets ''shared_database'') ''transcendence''"
    by (elim exE conjE)
  from d have dd: "dbSecrets = database_doc"
    by (simp add: database_world_def quiet_world_def)
  have closure: "(case fst (getDatabaseConfig database_world) of
      Inr cfg \<Rightarrow>
        getDatabaseUrl cfg [Some (JStr ''auth_db'')] =
          ''mysql://user:pw@database-service:3306/transcendence''
    | Inl error \<Rightarrow> False)"
    unfolding database_world_config
    using url [THEN spec, of "[Some (JStr ''auth_db'')]"]
    by (simp add: dd database_doc_def js_str_def or_default_def)
  have absent: "(case field (body (fst (get_database_config database_world))) ''data'' of
      None \<Rightarrow> False | Some config \<Rightarrow> field config ''getDatabaseUrl'' = None)"
    using get_database_config_sends_no_closure [of database_world]
    by (simp add: database_world_response)
  have out: "\<forall>k. outcomes config_net k =
      Answered 200 ''OK'' config_text (Some (body (fst (get_database_config database_world))))"
    by (simp add: config_net_def database_world_response)
  have name: "getServiceDatabase ''auth-service'' = Name ''auth_db''"
    by (simp add: getServiceDatabase_def)
  have start: "sent config_net = []" by (simp add: config_net_def)
  have run: "client_getDatabaseUrl default_client ''auth_db'' config_net =
     (Some (Inl (Error ''dbConfig.getDatabaseUrl is not a function'')),
      config_net\<lparr>sent := [''/api/database/config'']\<rparr>)"
    by (simp add: client_getDatabaseUrl_def client_getDatabaseConfig_def makeRequest_def out start
        database_world_response falsy_def)
  from never closure database_world_response out absent name run show ?thesis
    by (intro conjI)
qed

section \<open>The client\<close>

subsection \<open>Fetching a secret with retries\<close>














subsection \<open>Waiting for the gateway\<close>

lemma makeHealthRequest_fails:
  "health_fails (outcomes w (length (sent w))) \<Longrightarrow>
   \<exists>m. makeHealthRequest w = (Inl (Error m), w\<lparr>sent := sent w @ [''/health'']\<rparr>)"
  by (auto simp: makeHealthRequest_def health_fails_def probe_def split: outcome.splits if_splits)

lemma makeHealthRequest_ok:
  "\<not> health_fails (outcomes w (length (sent w))) \<Longrightarrow>
   makeHealthRequest w = (Inr (), w\<lparr>sent := sent w @ [''/health'']\<rparr>)"
  by (auto simp: makeHealthRequest_def health_fails_def probe_def split: outcome.splits if_splits)

lemma client_waitForVault_loop_exhausted:
  "m - i = n \<Longrightarrow> \<forall>k<n. health_fails (outcomes w (length (sent w) + k)) \<Longrightarrow>
   client_waitForVault_loop c i m w =
     (Inl (Error ''Vault service is not available after maximum retries''),
      w\<lparr>sent := sent w @ replicate n ''/health'',
        client_console := client_console w @ health_wait_lines i m n,
        slept := slept w @ health_wait_delays i n\<rparr>)"
  supply client_waitForVault_loop.simps [simp del]
proof (induction n arbitrary: i w)
  case 0
  then show ?case by (subst client_waitForVault_loop.simps) simp
next
  case (Suc n)
  then have lt: "i < m" by simp
  from Suc.prems(2) have "health_fails (outcomes w (length (sent w)))" by force
  from makeHealthRequest_fails [OF this] obtain msg where
    h: "makeHealthRequest w = (Inl (Error msg), w\<lparr>sent := sent w @ [''/health'']\<rparr>)" by blast
  let ?w1 = "client_sleep (waitTime i)
      (client_log (WaitingForVaultService (i + 1) m (waitTime i))
         (w\<lparr>sent := sent w @ [''/health'']\<rparr>))"
  have step: "client_waitForVault_loop c i m w = client_waitForVault_loop c (i + 1) m ?w1"
    using lt by (subst client_waitForVault_loop.simps) (simp add: h)
  have n: "m - (i + 1) = n" using Suc.prems(1) by simp
  have rest: "\<forall>k<n. health_fails (outcomes ?w1 (length (sent ?w1) + k))"
  proof (intro allI impI)
    fix k assume "k < n"
    then have "Suc k < Suc n" by simp
    with Suc.prems(2) have "health_fails (outcomes w (length (sent w) + Suc k))" by blast
    then show "health_fails (outcomes ?w1 (length (sent ?w1) + k))"
      by (simp add: client_sleep_def client_log_def)
  qed
  show ?case
    unfolding step Suc.IH [OF n rest]
    by (simp add: client_sleep_def client_log_def)
qed

lemma client_waitForVault_loop_ready:
  "i + j < m \<Longrightarrow> \<not> health_fails (outcomes w (length (sent w) + j)) \<Longrightarrow>
   \<forall>k<j. health_fails (outcomes w (length (sent w) + k)) \<Longrightarrow>
   client_waitForVault_loop c i m w =
     (Inr (),
      w\<lparr>sent := sent w @ replicate (Suc j) ''/health'',
        client_console := client_console w @ health_wait_lines i m j @
          [VaultServiceReady (serviceName c)],
        slept := slept w @ health_wait_delays i j\<rparr>)"
  supply client_waitForVault_loop.simps [simp del]
proof (induction j arbitrary: i w)
  case 0
  then have lt: "i < m" and ok: "\<not> health_fails (outcomes w (length (sent w)))" by simp_all
  show ?case
    using lt by (subst client_waitForVault_loop.simps)
      (simp add: makeHealthRequest_ok [OF ok] client_log_def)
next
  case (Suc j)
  then have lt: "i < m" by simp
  from Suc.prems(3) have "health_fails (outcomes w (length (sent w)))" by force
  from makeHealthRequest_fails [OF this] obtain msg where
    h: "makeHealthRequest w = (Inl (Error msg), w\<lparr>sent := sent w @ [''/health'']\<rparr>)" by blast
  let ?w1 = "client_sleep (waitTime i)
      (client_log (WaitingForVaultService (i + 1) m (waitTime i))
         (w\<lparr>sent := sent w @ [''/health'']\<rparr>))"
  have step: "client_waitForVault_loop c i m w = client_waitForVault_loop c (i + 1) m ?w1"
    using lt by (subst client_waitForVault_loop.simps) (simp add: h)
  have a: "(i + 1) + j < m" using Suc.prems(1) by simp
  have b: "\<not> health_fails (outcomes ?w1 (length (sent ?w1) + j))"
    using Suc.prems(2) by (simp add: client_sleep_def client_log_def)
  have rest: "\<forall>k<j. health_fails (outcomes ?w1 (length (sent ?w1) + k))"
  proof (intro allI impI)
    fix k assume "k < j"
    then have "Suc k < Suc j" by simp
    with Suc.prems(3) have "health_fails (outcomes w (length (sent w) + Suc k))" by blast
    then show "health_fails (outcomes ?w1 (length (sent ?w1) + k))"
      by (simp add: client_sleep_def client_log_def)
  qed
  show ?case
    unfolding step Suc.IH [OF a b rest]
    by (simp add: client_sleep_def client_log_def)
qed

lemma health_wait_delays_eq: "health_wait_delays i n = map waitTime [i..<i + n]"
proof (induction n arbitrary: i)
  case 0
  show ?case by simp
next
  case (Suc n)
  have "[i..<i + Suc n] = i # [Suc i..<Suc i + n]"
    by (simp add: upt_conv_Cons)
  then show ?case by (simp add: Suc.IH)
qed

lemma waitTime_values:
  "waitTime 0 = 1000" "waitTime 1 = 1500" "waitTime 2 = 2250" "waitTime 3 = 3375"
  "waitTime 4 = 10125 / 2" "waitTime 5 = 30375 / 4"
  by (simp_all add: waitTime_def power_numeral_reduce min_def eval_nat_numeral)

lemma waitTime_cap: "6 \<le> i \<Longrightarrow> waitTime i = 10000"
proof -
  assume "6 \<le> i"
  then have p: "(3 / 2 :: rat) ^ 6 \<le> (3 / 2) ^ i"
    by (intro power_increasing) simp_all
  have q: "(10 :: rat) \<le> (3 / 2) ^ 6"
    by (simp add: power_numeral_reduce eval_nat_numeral)
  from q p have "(10 :: rat) \<le> (3 / 2) ^ i" by (rule order_trans)
  then have "(10000 :: rat) \<le> 1000 * (3 / 2) ^ i" by linarith
  then show ?thesis by (simp add: waitTime_def)
qed

lemma waitTime_step: "waitTime (Suc i) = min (3 / 2 * waitTime i) 10000"
proof (cases "1000 * (3 / 2 :: rat) ^ i \<le> 10000")
  case True
  then show ?thesis by (simp add: waitTime_def min_def)
next
  case False
  then have "(10000 :: rat) < 1000 * (3 / 2) ^ i" by simp
  then show ?thesis by (simp add: waitTime_def min_def)
qed


lemma waitTime_le: "waitTime i \<le> 10000"
  by (simp add: waitTime_def)

lemma waitTime_Suc:
  "waitTime 0 = 1000" "waitTime (Suc 0) = 1500" "waitTime (Suc (Suc 0)) = 2250"
  using waitTime_values by (simp_all add: eval_nat_numeral)

text \<open>
  Claim C7, as the code has it. \<open>waitForVault\<close> polls the health endpoint with an
  exponential backoff whose delay starts at 1000 ms and is multiplied by one and a
  half (not doubled) from one attempt to the next, up to a ceiling of 10000 ms, which
  it has reached from the seventh attempt on. When all \<open>maxRetries\<close> health requests
  fail the call throws the error \<open>Vault service is not available after maximum
  retries\<close>, after \<open>maxRetries\<close> requests and as many waits; it throws in no other
  case. When a request succeeds after \<open>j\<close> failures it returns, having waited
  \<open>j\<close> times.
\<close>

theorem client_waitForVault_backoff:
  "waitTime 0 = 1000 \<and> waitTime (Suc i) = min (3 / 2 * waitTime i) 10000 \<and>
   waitTime i \<le> 10000 \<and> (6 \<le> i \<longrightarrow> waitTime i = 10000) \<and>
   ((\<exists>e. fst (client_waitForVault c m w) = Inl e) \<longleftrightarrow>
      (\<forall>k<m. health_fails (outcomes w (length (sent w) + k)))) \<and>
   ((\<forall>k<m. health_fails (outcomes w (length (sent w) + k))) \<longrightarrow>
      fst (client_waitForVault c m w) =
        Inl (Error ''Vault service is not available after maximum retries'') \<and>
      sent (snd (client_waitForVault c m w)) = sent w @ replicate m ''/health'' \<and>
      slept (snd (client_waitForVault c m w)) = slept w @ map waitTime [0..<m]) \<and>
   (\<forall>j<m. \<not> health_fails (outcomes w (length (sent w) + j)) \<and>
        (\<forall>k<j. health_fails (outcomes w (length (sent w) + k))) \<longrightarrow>
      fst (client_waitForVault c m w) = Inr () \<and>
      sent (snd (client_waitForVault c m w)) = sent w @ replicate (Suc j) ''/health'' \<and>
      slept (snd (client_waitForVault c m w)) = slept w @ map waitTime [0..<j])"
  supply client_waitForVault_loop.simps [simp del]
proof (intro conjI allI impI)
  show "waitTime 0 = 1000" by (rule waitTime_values)
  show "waitTime (Suc i) = min (3 / 2 * waitTime i) 10000" by (rule waitTime_step)
  show "waitTime i \<le> 10000" by (rule waitTime_le)
  show "waitTime i = 10000" if "6 \<le> i" using that by (rule waitTime_cap)
next
  show "(\<exists>e. fst (client_waitForVault c m w) = Inl e) \<longleftrightarrow>
      (\<forall>k<m. health_fails (outcomes w (length (sent w) + k)))"
  proof (cases "\<forall>k<m. health_fails (outcomes w (length (sent w) + k))")
    case True
    from client_waitForVault_loop_exhausted [of m 0 m w c] True show ?thesis
      by (simp add: client_waitForVault_def)
  next
    case False
    from first_success [OF False] obtain j where j: "j < m"
      "\<not> health_fails (outcomes w (length (sent w) + j))"
      "\<forall>k<j. health_fails (outcomes w (length (sent w) + k))" by blast
    from client_waitForVault_loop_ready [of 0 j m w c] j False show ?thesis
      by (simp add: client_waitForVault_def)
  qed
next
  assume f: "\<forall>k<m. health_fails (outcomes w (length (sent w) + k))"
  from client_waitForVault_loop_exhausted [of m 0 m w c] f
  show "fst (client_waitForVault c m w) =
        Inl (Error ''Vault service is not available after maximum retries'')"
    "sent (snd (client_waitForVault c m w)) = sent w @ replicate m ''/health''"
    "slept (snd (client_waitForVault c m w)) = slept w @ map waitTime [0..<m]"
    by (simp_all add: client_waitForVault_def health_wait_delays_eq)
next
  fix j
  assume "j < m" and "\<not> health_fails (outcomes w (length (sent w) + j)) \<and>
        (\<forall>k<j. health_fails (outcomes w (length (sent w) + k)))"
  with client_waitForVault_loop_ready [of 0 j m w c]
  show "fst (client_waitForVault c m w) = Inr ()"
    "sent (snd (client_waitForVault c m w)) = sent w @ replicate (Suc j) ''/health''"
    "slept (snd (client_waitForVault c m w)) = slept w @ map waitTime [0..<j]"
    by (simp_all add: client_waitForVault_def health_wait_delays_eq)
qed

text \<open>
  Two failed health requests: the second wait is 1500 ms, one and a half times the
  first, not twice the first.
\<close>

theorem client_waitForVault_not_doubled:
  "fst (client_waitForVault default_client 2 dead_net) =
     Inl (Error ''Vault service is not available after maximum retries'') \<and>
   slept (snd (client_waitForVault default_client 2 dead_net)) = [1000, 1500] \<and>
   slept (snd (client_waitForVault default_client 2 dead_net)) ! 1 \<noteq>
     2 * slept (snd (client_waitForVault default_client 2 dead_net)) ! 0"
  supply client_waitForVault_loop.simps [simp del]
proof -
  have f: "\<forall>k<2. health_fails (outcomes dead_net (length (sent dead_net) + k))"
    by (simp add: dead_net_def health_fails_def makeHealthRequest_def probe_def)
  have d: "health_wait_delays 0 2 = [1000, 1500]"
    by (simp add: health_wait_delays_eq upt_rec waitTime_Suc)
  have n: "slept dead_net = []" by (simp add: dead_net_def)
  have "(2::nat) - 0 = 2" by simp
  from client_waitForVault_loop_exhausted [OF this, of dead_net default_client] f
  have "client_waitForVault default_client 2 dead_net =
     (Inl (Error ''Vault service is not available after maximum retries''),
      dead_net\<lparr>sent := sent dead_net @ replicate 2 ''/health'',
        client_console := client_console dead_net @ health_wait_lines 0 2 2,
        slept := slept dead_net @ health_wait_delays 0 2\<rparr>)"
    by (simp add: client_waitForVault_def)
  then have "fst (client_waitForVault default_client 2 dead_net) =
     Inl (Error ''Vault service is not available after maximum retries'')"
    and "slept (snd (client_waitForVault default_client 2 dead_net)) = [1000, 1500]"
    by (simp_all add: d n)
  then show ?thesis by simp
qed

theorem client_waitForVault_backoff_witness:
  "fst (client_waitForVault default_client 3 dead_net) =
     Inl (Error ''Vault service is not available after maximum retries'') \<and>
   sent (snd (client_waitForVault default_client 3 dead_net)) =
     [''/health'', ''/health'', ''/health''] \<and>
   slept (snd (client_waitForVault default_client 3 dead_net)) = [1000, 1500, 2250] \<and>
   fst (client_waitForVault default_client 30 slow_net) = Inr () \<and>
   slept (snd (client_waitForVault default_client 30 slow_net)) = [1000] \<and>
   waitTime 7 = 10000"
  supply client_waitForVault_loop.simps [simp del]
proof -
  note D = client_waitForVault_backoff [of 7 default_client 3 dead_net]
  note S = client_waitForVault_backoff [of 7 default_client 30 slow_net]
  have f: "\<forall>k<3. health_fails (outcomes dead_net (length (sent dead_net) + k))"
    by (simp add: dead_net_def health_fails_def makeHealthRequest_def probe_def)
  note down = D [THEN conjunct2, THEN conjunct2, THEN conjunct2, THEN conjunct2, THEN conjunct2,
      THEN conjunct1, THEN mp, OF f]
  have g: "\<not> health_fails (outcomes slow_net (length (sent slow_net) + 1)) \<and>
        (\<forall>k<1. health_fails (outcomes slow_net (length (sent slow_net) + k)))"
    by (simp add: slow_net_def health_fails_def makeHealthRequest_def probe_def)
  have "(1::nat) < 30" by simp
  note up = S [THEN conjunct2, THEN conjunct2, THEN conjunct2, THEN conjunct2, THEN conjunct2,
      THEN conjunct2, THEN spec, THEN mp, OF this, THEN mp, OF g]
  have "(6::nat) \<le> 7" by simp
  note cap = D [THEN conjunct2, THEN conjunct2, THEN conjunct2, THEN conjunct1, THEN mp, OF this]
  have l3: "map waitTime [0..<3] = [1000, 1500, 2250]" "map waitTime [0..<1] = [1000]"
    by (simp_all add: upt_rec waitTime_Suc)
  have n: "slept dead_net = []" "sent dead_net = []" "slept slow_net = []"
    by (simp_all add: dead_net_def slow_net_def)
  have r: "replicate 3 ''/health'' = [''/health'', ''/health'', ''/health'']"
    by (simp add: numeral_3_eq_3)
  from down have 1: "fst (client_waitForVault default_client 3 dead_net) =
     Inl (Error ''Vault service is not available after maximum retries'')"
    "sent (snd (client_waitForVault default_client 3 dead_net)) =
     [''/health'', ''/health'', ''/health'']"
    "slept (snd (client_waitForVault default_client 3 dead_net)) = [1000, 1500, 2250]"
    by (simp_all only: l3 n r append_Nil)
  from up have 2: "fst (client_waitForVault default_client 30 slow_net) = Inr ()"
    "slept (snd (client_waitForVault default_client 30 slow_net)) = [1000]"
    by (simp_all only: l3 n append_Nil)
  from 1 2 cap show ?thesis by (intro conjI)
qed

section \<open>Properties of maskSecret\<close>

lemma substring_prefix: "substring s 0 v = take (nat v) s"
  by (simp add: substring_def clamp_index_def min_def)

lemma repeat_star: "repeat ''*'' n = replicate (nat n) CHR ''*''"
proof -
  have "concat (replicate k ''*'') = replicate k CHR ''*''" for k
    by (induction k) simp_all
  then show ?thesis by (simp add: repeat_def)
qed

lemma maskSecret_short:
  "s = [] \<or> int (length s) \<le> v \<Longrightarrow> maskSecret s v = ''***''"
  by (simp add: maskSecret_def)

lemma maskSecret_long:
  "s \<noteq> [] \<Longrightarrow> v < int (length s) \<Longrightarrow>
   maskSecret s v = take (nat v) s @ replicate (nat (min (int (length s) - v) 8)) CHR ''*''"
  by (simp add: maskSecret_def substring_prefix repeat_star)

lemma maskSecret_depends_on_prefix:
  assumes "length t = length s" and "take (nat v) t = take (nat v) s"
  shows "maskSecret t v = maskSecret s v"
proof (cases "s = [] \<or> int (length s) \<le> v")
  case True
  with assms(1) have "t = [] \<or> int (length t) \<le> v" by auto
  with True show ?thesis by (simp add: maskSecret_short)
next
  case False
  with assms(1) have "t \<noteq> []" "v < int (length t)" by auto
  with False assms show ?thesis by (simp add: maskSecret_long)
qed

text \<open>
  Claim C10. For every string \<open>s\<close> and every number \<open>v\<close> of visible characters:
  when \<open>s\<close> is empty or no longer than \<open>v\<close> the result is exactly \<open>***\<close>; otherwise it
  is the first \<open>v\<close> characters of \<open>s\<close> followed by \<open>min (length s - v) 8\<close> asterisks.
  No other character of \<open>s\<close> takes part: two secrets of the same length that agree on
  their first \<open>v\<close> characters are masked to the same text, and the masked text is never
  longer than \<open>v + 8\<close> characters when \<open>v\<close> is at least 3 (the length of \<open>***\<close>).
\<close>

theorem maskSecret_spec:
  "(s = [] \<or> int (length s) \<le> v \<longrightarrow> maskSecret s v = ''***'') \<and>
   (s \<noteq> [] \<and> v < int (length s) \<longrightarrow>
      maskSecret s v = take (nat v) s @ replicate (nat (min (int (length s) - v) 8)) CHR ''*'') \<and>
   (\<forall>t. length t = length s \<and> take (nat v) t = take (nat v) s \<longrightarrow>
      maskSecret t v = maskSecret s v) \<and>
   (3 \<le> v \<longrightarrow> int (length (maskSecret s v)) \<le> v + 8)"
proof -
  have "int (length (maskSecret s v)) \<le> v + 8" if "3 \<le> v"
  proof (cases "s = [] \<or> int (length s) \<le> v")
    case True
    with that show ?thesis by (simp add: maskSecret_short)
  next
    case False
    then have "maskSecret s v =
        take (nat v) s @ replicate (nat (min (int (length s) - v) 8)) CHR ''*''"
      by (simp add: maskSecret_long)
    with that False show ?thesis by auto
  qed
  then show ?thesis
    using maskSecret_short [of s v] maskSecret_long [of s v]
      maskSecret_depends_on_prefix [of _ s v]
    by blast
qed

theorem maskSecret_spec_witness:
  "maskSecret ''abcd'' 4 = ''***'' \<and>
   maskSecret ''hunter2-is-my-password'' 4 = ''hunt********'' \<and>
   maskSecret ''hunter2'' 4 = ''hunt***'' \<and>
   maskSecret ''hunter2-is-my-pet-name'' 4 = maskSecret ''hunter2-is-my-password'' 4 \<and>
   length (maskSecret ''hunter2-is-my-password'' 4) = 12"
proof -
  have short: "maskSecret ''abcd'' 4 = ''***''"
    using maskSecret_spec [of "''abcd''" 4] by simp
  have long: "maskSecret ''hunter2-is-my-password'' 4 = ''hunt********''"
    using maskSecret_spec [of "''hunter2-is-my-password''" 4]
    by (simp add: eval_nat_numeral)
  have mid: "maskSecret ''hunter2'' 4 = ''hunt***''"
    using maskSecret_spec [of "''hunter2''" 4]
    by (simp add: eval_nat_numeral)
  have same: "maskSecret ''hunter2-is-my-pet-name'' 4 = maskSecret ''hunter2-is-my-password'' 4"
    using maskSecret_spec [of "''hunter2-is-my-password''" 4] by simp
  from short long mid same show ?thesis by simp
qed

end
